theory Spec2Isabelle
  imports Complex_Main
begin

section \<open>Common Python values\<close>

text \<open>
  Objects are mutable and compared by identity (no class of the repository defines
  \<^verbatim>\<open>__eq__\<close>), so every object lives in a store under a reference and the lists
  of the source hold references. \<^verbatim>\<open>x in xs\<close> is membership of the reference,
  \<^verbatim>\<open>xs.append(x)\<close> is \<open>xs @ [x]\<close>, and \<^verbatim>\<open>xs.remove(x)\<close> deletes the first
  occurrence (\<open>remove1\<close>). Console output is not modelled.
\<close>

type_synonym ref = nat

type_synonym timestamp = nat

text \<open>The exceptions the modelled code raises.\<close>

datatype error = ValueError | NameError | AttributeError | RecursionError | TypeError

text \<open>
  A Python \<^verbatim>\<open>float\<close> as far as ordering is concerned: a finite value, an infinity or
  NaN. Every comparison with NaN is false.
\<close>

datatype pyfloat = Fin real | PosInf | NegInf | NaN

fun py_le :: "pyfloat \<Rightarrow> pyfloat \<Rightarrow> bool" where
  "py_le NaN _ = False"
| "py_le _ NaN = False"
| "py_le NegInf _ = True"
| "py_le _ PosInf = True"
| "py_le (Fin a) (Fin b) = (a \<le> b)"
| "py_le PosInf _ = False"
| "py_le _ NegInf = False"

fun py_lt :: "pyfloat \<Rightarrow> pyfloat \<Rightarrow> bool" where
  "py_lt NaN _ = False"
| "py_lt _ NaN = False"
| "py_lt (Fin a) (Fin b) = (a < b)"
| "py_lt PosInf _ = False"
| "py_lt _ NegInf = False"
| "py_lt NegInf _ = True"
| "py_lt _ PosInf = True"

text \<open>
  \<^verbatim>\<open>str.strip()\<close>: whitespace is removed at both ends. A \<open>char\<close> stands for a code
  point below 256; these are the ones Python counts as whitespace there.
\<close>

definition is_space :: "char \<Rightarrow> bool" where
  "is_space c = (of_char c \<in> {9, 10, 11, 12, 13, 28, 29, 30, 31, 32, 133, 160 :: nat})"

definition strip :: "string \<Rightarrow> string" where
  "strip v = rev (dropWhile is_space (rev (dropWhile is_space v)))"

section \<open>system.py: the school\<close>

subsection \<open>Classes\<close>

record person =
  person_id :: string
  name :: string
  email :: string
  phone :: string
  created_at :: timestamp

record student = person +
  grade_level :: int
  enrollment_date :: timestamp
  enrolled_courses :: "ref list"
  grades :: "string \<rightharpoonup> pyfloat"

record teacher = person +
  subject :: string
  hire_date :: timestamp
  courses_taught :: "ref list"
  salary :: pyfloat

record course =
  course_id :: string
  course_name :: string
  description :: string
  credits :: int
  max_students :: int
  course_teacher :: "ref option"
  enrolled_students :: "ref list"

record department =
  dept_id :: string
  dept_name :: string
  head :: "ref option"
  dept_courses :: "ref list"
  dept_teachers :: "ref list"

text \<open>The store: what each student, teacher, course and department reference denotes.\<close>

record heap =
  students :: "ref \<Rightarrow> student"
  teachers :: "ref \<Rightarrow> teacher"
  courses :: "ref \<Rightarrow> course"
  departments :: "ref \<Rightarrow> department"

subsection \<open>Constructors\<close>

text \<open>
  \<open>now\<close> is the value of \<^verbatim>\<open>datetime.now()\<close> at the call;
  \<^verbatim>\<open>enrollment_date or datetime.now()\<close> takes the argument when one is given.
\<close>

definition Student_init ::
  "timestamp \<Rightarrow> string \<Rightarrow> string \<Rightarrow> string \<Rightarrow> string \<Rightarrow> int \<Rightarrow> timestamp option \<Rightarrow> student" where
  "Student_init now pid nm em ph gl ed =
     \<lparr>person_id = pid, name = nm, email = em, phone = ph, created_at = now,
      grade_level = gl, enrollment_date = (case ed of Some d \<Rightarrow> d | None \<Rightarrow> now),
      enrolled_courses = [], grades = Map.empty\<rparr>"

definition Teacher_init ::
  "timestamp \<Rightarrow> string \<Rightarrow> string \<Rightarrow> string \<Rightarrow> string \<Rightarrow> string \<Rightarrow> timestamp option \<Rightarrow> teacher" where
  "Teacher_init now pid nm em ph sb hdt =
     \<lparr>person_id = pid, name = nm, email = em, phone = ph, created_at = now,
      subject = sb, hire_date = (case hdt of Some d \<Rightarrow> d | None \<Rightarrow> now),
      courses_taught = [], salary = Fin 0\<rparr>"

definition Course_init :: "string \<Rightarrow> string \<Rightarrow> string \<Rightarrow> int \<Rightarrow> int \<Rightarrow> course" where
  "Course_init cid nm ds cr mx =
     \<lparr>course_id = cid, course_name = nm, description = ds, credits = cr,
      max_students = mx, course_teacher = None, enrolled_students = []\<rparr>"

definition Department_init :: "string \<Rightarrow> string \<Rightarrow> ref option \<Rightarrow> department" where
  "Department_init did nm hdr =
     \<lparr>dept_id = did, dept_name = nm, head = hdr, dept_courses = [], dept_teachers = []\<rparr>"

text \<open>
  A store right after construction: every object is as its constructor leaves it.
  Constructors touch no other object, so allocating all objects first and then running
  the operations loses no behaviour.
\<close>

definition constructed :: "heap \<Rightarrow> bool" where
  "constructed h \<longleftrightarrow>
     (\<forall>r. enrolled_courses (students h r) = [] \<and> grades (students h r) = Map.empty) \<and>
     (\<forall>r. courses_taught (teachers h r) = [] \<and> salary (teachers h r) = Fin 0) \<and>
     (\<forall>r. course_teacher (courses h r) = None \<and> enrolled_students (courses h r) = []) \<and>
     (\<forall>r. dept_courses (departments h r) = [] \<and> dept_teachers (departments h r) = [])"

subsection \<open>Validated setters\<close>

text \<open>
  A property setter returns the exception it raises (or \<open>Inr ()\<close>) together with the
  object as the call leaves it.
\<close>

definition Person_set_name ::
  "'a person_scheme \<Rightarrow> string \<Rightarrow> (error + unit) \<times> 'a person_scheme" where
  "Person_set_name p v =
     (if strip v = [] then (Inl ValueError, p) else (Inr (), p\<lparr>name := v\<rparr>))"

definition Person_set_email ::
  "'a person_scheme \<Rightarrow> string \<Rightarrow> (error + unit) \<times> 'a person_scheme" where
  "Person_set_email p v =
     (if CHR ''@'' \<notin> set v then (Inl ValueError, p) else (Inr (), p\<lparr>email := v\<rparr>))"

definition Person_set_phone ::
  "'a person_scheme \<Rightarrow> string \<Rightarrow> (error + unit) \<times> 'a person_scheme" where
  "Person_set_phone p v = (Inr (), p\<lparr>phone := v\<rparr>)"

definition Student_set_grade_level :: "student \<Rightarrow> int \<Rightarrow> (error + unit) \<times> student" where
  "Student_set_grade_level s v =
     (if \<not> (1 \<le> v \<and> v \<le> 12) then (Inl ValueError, s)
      else (Inr (), s\<lparr>grade_level := v\<rparr>))"

definition Teacher_set_subject :: "teacher \<Rightarrow> string \<Rightarrow> (error + unit) \<times> teacher" where
  "Teacher_set_subject t v = (Inr (), t\<lparr>subject := v\<rparr>)"

definition Teacher_set_salary :: "teacher \<Rightarrow> pyfloat \<Rightarrow> (error + unit) \<times> teacher" where
  "Teacher_set_salary t v =
     (if py_lt v (Fin 0) then (Inl ValueError, t) else (Inr (), t\<lparr>salary := v\<rparr>))"

definition Course_set_name :: "course \<Rightarrow> string \<Rightarrow> (error + unit) \<times> course" where
  "Course_set_name c v =
     (if strip v = [] then (Inl ValueError, c) else (Inr (), c\<lparr>course_name := v\<rparr>))"

subsection \<open>Course\<close>

definition get_enrollment_count :: "course \<Rightarrow> int" where
  "get_enrollment_count c = int (length (enrolled_students c))"

definition is_full :: "course \<Rightarrow> bool" where
  "is_full c \<longleftrightarrow> int (length (enrolled_students c)) \<ge> max_students c"

definition Course_add_student :: "heap \<Rightarrow> ref \<Rightarrow> ref \<Rightarrow> bool \<times> heap" where
  "Course_add_student h c s =
     (let co = courses h c in
      if int (length (enrolled_students co)) \<ge> max_students co then (False, h)
      else if s \<notin> set (enrolled_students co)
      then (True, h\<lparr>courses := (courses h)
                      (c := co\<lparr>enrolled_students := enrolled_students co @ [s]\<rparr>)\<rparr>)
      else (False, h))"

definition Course_remove_student :: "heap \<Rightarrow> ref \<Rightarrow> ref \<Rightarrow> heap" where
  "Course_remove_student h c s =
     (let co = courses h c in
      if s \<in> set (enrolled_students co)
      then h\<lparr>courses := (courses h)
               (c := co\<lparr>enrolled_students := remove1 s (enrolled_students co)\<rparr>)\<rparr>
      else h)"

definition Course_set_teacher :: "heap \<Rightarrow> ref \<Rightarrow> ref \<Rightarrow> heap" where
  "Course_set_teacher h c t =
     h\<lparr>courses := (courses h)(c := (courses h c)\<lparr>course_teacher := Some t\<rparr>)\<rparr>"

subsection \<open>Student\<close>

definition Student_enroll_course :: "heap \<Rightarrow> ref \<Rightarrow> ref \<Rightarrow> bool \<times> heap" where
  "Student_enroll_course h s c =
     (if c \<in> set (enrolled_courses (students h s)) then (False, h)
      else case Course_add_student h c s of
        (True, h1) \<Rightarrow>
          (True, h1\<lparr>students := (students h1)
                     (s := (students h1 s)
                        \<lparr>enrolled_courses := enrolled_courses (students h1 s) @ [c]\<rparr>)\<rparr>)
      | (False, h1) \<Rightarrow> (False, h1))"

definition Student_drop_course :: "heap \<Rightarrow> ref \<Rightarrow> ref \<Rightarrow> bool \<times> heap" where
  "Student_drop_course h s c =
     (if c \<notin> set (enrolled_courses (students h s)) then (False, h)
      else
        let h1 = Course_remove_student h c s;
            st1 = (students h1 s)
                    \<lparr>enrolled_courses := remove1 c (enrolled_courses (students h1 s))\<rparr>;
            cid = course_id (courses h1 c);
            st2 = (if cid \<in> dom (grades st1)
                   then st1\<lparr>grades := (grades st1)(cid := None)\<rparr> else st1)
        in (True, h1\<lparr>students := (students h1)(s := st2)\<rparr>))"

definition Student_add_grade :: "heap \<Rightarrow> ref \<Rightarrow> string \<Rightarrow> pyfloat \<Rightarrow> (error + unit) \<times> heap" where
  "Student_add_grade h s cid g =
     (if \<not> (py_le (Fin 0) g \<and> py_le g (Fin 100)) then (Inl ValueError, h)
      else (Inr (), h\<lparr>students := (students h)
                       (s := (students h s)\<lparr>grades := (grades (students h s))(cid \<mapsto> g)\<rparr>)\<rparr>))"

subsection \<open>Teacher\<close>

definition Teacher_assign_course :: "heap \<Rightarrow> ref \<Rightarrow> ref \<Rightarrow> heap" where
  "Teacher_assign_course h t c =
     (if c \<notin> set (courses_taught (teachers h t))
      then Course_set_teacher
             (h\<lparr>teachers := (teachers h)
                  (t := (teachers h t)\<lparr>courses_taught := courses_taught (teachers h t) @ [c]\<rparr>)\<rparr>)
             c t
      else h)"

definition Teacher_remove_course :: "heap \<Rightarrow> ref \<Rightarrow> ref \<Rightarrow> heap" where
  "Teacher_remove_course h t c =
     (if c \<in> set (courses_taught (teachers h t))
      then h\<lparr>teachers := (teachers h)
               (t := (teachers h t)\<lparr>courses_taught := remove1 c (courses_taught (teachers h t))\<rparr>)\<rparr>
      else h)"

subsection \<open>Department\<close>

definition Department_add_course :: "heap \<Rightarrow> ref \<Rightarrow> ref \<Rightarrow> heap" where
  "Department_add_course h d c =
     (if c \<notin> set (dept_courses (departments h d))
      then h\<lparr>departments := (departments h)
               (d := (departments h d)\<lparr>dept_courses := dept_courses (departments h d) @ [c]\<rparr>)\<rparr>
      else h)"

definition Department_remove_course :: "heap \<Rightarrow> ref \<Rightarrow> ref \<Rightarrow> heap" where
  "Department_remove_course h d c =
     (if c \<in> set (dept_courses (departments h d))
      then h\<lparr>departments := (departments h)
               (d := (departments h d)
                  \<lparr>dept_courses := remove1 c (dept_courses (departments h d))\<rparr>)\<rparr>
      else h)"

definition Department_add_teacher :: "heap \<Rightarrow> ref \<Rightarrow> ref \<Rightarrow> heap" where
  "Department_add_teacher h d t =
     (if t \<notin> set (dept_teachers (departments h d))
      then h\<lparr>departments := (departments h)
               (d := (departments h d)\<lparr>dept_teachers := dept_teachers (departments h d) @ [t]\<rparr>)\<rparr>
      else h)"

definition Department_remove_teacher :: "heap \<Rightarrow> ref \<Rightarrow> ref \<Rightarrow> heap" where
  "Department_remove_teacher h d t =
     (if t \<in> set (dept_teachers (departments h d))
      then h\<lparr>departments := (departments h)
               (d := (departments h d)
                  \<lparr>dept_teachers := remove1 t (dept_teachers (departments h d))\<rparr>)\<rparr>
      else h)"

definition Department_set_head :: "heap \<Rightarrow> ref \<Rightarrow> ref \<Rightarrow> heap" where
  "Department_set_head h d t =
     h\<lparr>departments := (departments h)(d := (departments h d)\<lparr>head := Some t\<rparr>)\<rparr>"

subsection \<open>Sequences of calls\<close>

text \<open>
  Every public method and property setter of Student, Teacher, Course and Department
  that changes an object, as one call each. A call that raises leaves the store as it
  is at the raise.
\<close>

datatype op =
    Enroll_course ref ref
  | Drop_course ref ref
  | Add_grade ref string pyfloat
  | Add_student ref ref
  | Remove_student ref ref
  | Set_teacher ref ref
  | Assign_course ref ref
  | Remove_course ref ref
  | Set_student_name ref string
  | Set_student_email ref string
  | Set_student_phone ref string
  | Set_grade_level ref int
  | Set_teacher_name ref string
  | Set_teacher_email ref string
  | Set_teacher_phone ref string
  | Set_subject ref string
  | Set_salary ref pyfloat
  | Set_course_name ref string
  | Dept_add_course ref ref
  | Dept_remove_course ref ref
  | Dept_add_teacher ref ref
  | Dept_remove_teacher ref ref
  | Dept_set_head ref ref

fun exec :: "op \<Rightarrow> heap \<Rightarrow> heap" where
  "exec (Enroll_course s c) h = snd (Student_enroll_course h s c)"
| "exec (Drop_course s c) h = snd (Student_drop_course h s c)"
| "exec (Add_grade s cid g) h = snd (Student_add_grade h s cid g)"
| "exec (Add_student c s) h = snd (Course_add_student h c s)"
| "exec (Remove_student c s) h = Course_remove_student h c s"
| "exec (Set_teacher c t) h = Course_set_teacher h c t"
| "exec (Assign_course t c) h = Teacher_assign_course h t c"
| "exec (Remove_course t c) h = Teacher_remove_course h t c"
| "exec (Set_student_name s v) h =
     h\<lparr>students := (students h)(s := snd (Person_set_name (students h s) v))\<rparr>"
| "exec (Set_student_email s v) h =
     h\<lparr>students := (students h)(s := snd (Person_set_email (students h s) v))\<rparr>"
| "exec (Set_student_phone s v) h =
     h\<lparr>students := (students h)(s := snd (Person_set_phone (students h s) v))\<rparr>"
| "exec (Set_grade_level s v) h =
     h\<lparr>students := (students h)(s := snd (Student_set_grade_level (students h s) v))\<rparr>"
| "exec (Set_teacher_name t v) h =
     h\<lparr>teachers := (teachers h)(t := snd (Person_set_name (teachers h t) v))\<rparr>"
| "exec (Set_teacher_email t v) h =
     h\<lparr>teachers := (teachers h)(t := snd (Person_set_email (teachers h t) v))\<rparr>"
| "exec (Set_teacher_phone t v) h =
     h\<lparr>teachers := (teachers h)(t := snd (Person_set_phone (teachers h t) v))\<rparr>"
| "exec (Set_subject t v) h =
     h\<lparr>teachers := (teachers h)(t := snd (Teacher_set_subject (teachers h t) v))\<rparr>"
| "exec (Set_salary t v) h =
     h\<lparr>teachers := (teachers h)(t := snd (Teacher_set_salary (teachers h t) v))\<rparr>"
| "exec (Set_course_name c v) h =
     h\<lparr>courses := (courses h)(c := snd (Course_set_name (courses h c) v))\<rparr>"
| "exec (Dept_add_course d c) h = Department_add_course h d c"
| "exec (Dept_remove_course d c) h = Department_remove_course h d c"
| "exec (Dept_add_teacher d t) h = Department_add_teacher h d t"
| "exec (Dept_remove_teacher d t) h = Department_remove_teacher h d t"
| "exec (Dept_set_head d t) h = Department_set_head h d t"

definition run :: "op list \<Rightarrow> heap \<Rightarrow> heap" where
  "run ops h = fold exec ops h"

text \<open>The capacity invariant of a course: it holds no more students than \<open>max_students\<close>.\<close>

definition within_capacity :: "heap \<Rightarrow> ref \<Rightarrow> bool" where
  "within_capacity h c \<longleftrightarrow>
     int (length (enrolled_students (courses h c))) \<le> max_students (courses h c)"

text \<open>
  The student-course association is symmetric when each side lists the other, without
  repetitions.
\<close>

definition symmetric :: "heap \<Rightarrow> bool" where
  "symmetric h \<longleftrightarrow>
     (\<forall>s c. c \<in> set (enrolled_courses (students h s)) \<longleftrightarrow>
            s \<in> set (enrolled_students (courses h c))) \<and>
     (\<forall>s. distinct (enrolled_courses (students h s))) \<and>
     (\<forall>c. distinct (enrolled_students (courses h c)))"

text \<open>
  \<^verbatim>\<open>Course.add_student\<close> and \<^verbatim>\<open>Course.remove_student\<close> called directly change the
  course's side only; every other call goes through the student.
\<close>

fun course_side_only :: "op \<Rightarrow> bool" where
  "course_side_only (Add_student c s) = True"
| "course_side_only (Remove_student c s) = True"
| "course_side_only _ = False"

subsection \<open>School: the registries\<close>

record school =
  school_name :: string
  address :: string
  reg_students :: "string \<rightharpoonup> ref"
  reg_teachers :: "string \<rightharpoonup> ref"
  reg_courses :: "string \<rightharpoonup> ref"
  reg_departments :: "string \<rightharpoonup> ref"

definition School_init :: "string \<Rightarrow> string \<Rightarrow> school" where
  "School_init nm ad =
     \<lparr>school_name = nm, address = ad, reg_students = Map.empty, reg_teachers = Map.empty,
      reg_courses = Map.empty, reg_departments = Map.empty\<rparr>"

definition School_add_student :: "heap \<Rightarrow> school \<Rightarrow> ref \<Rightarrow> bool \<times> school" where
  "School_add_student h sc s =
     (let k = person_id (students h s) in
      if k \<in> dom (reg_students sc) then (False, sc)
      else (True, sc\<lparr>reg_students := (reg_students sc)(k \<mapsto> s)\<rparr>))"

definition School_add_teacher :: "heap \<Rightarrow> school \<Rightarrow> ref \<Rightarrow> bool \<times> school" where
  "School_add_teacher h sc t =
     (let k = person_id (teachers h t) in
      if k \<in> dom (reg_teachers sc) then (False, sc)
      else (True, sc\<lparr>reg_teachers := (reg_teachers sc)(k \<mapsto> t)\<rparr>))"

definition School_add_course :: "heap \<Rightarrow> school \<Rightarrow> ref \<Rightarrow> bool \<times> school" where
  "School_add_course h sc c =
     (let k = course_id (courses h c) in
      if k \<in> dom (reg_courses sc) then (False, sc)
      else (True, sc\<lparr>reg_courses := (reg_courses sc)(k \<mapsto> c)\<rparr>))"

definition School_add_department :: "heap \<Rightarrow> school \<Rightarrow> ref \<Rightarrow> bool \<times> school" where
  "School_add_department h sc d =
     (let k = dept_id (departments h d) in
      if k \<in> dom (reg_departments sc) then (False, sc)
      else (True, sc\<lparr>reg_departments := (reg_departments sc)(k \<mapsto> d)\<rparr>))"

definition get_student :: "school \<Rightarrow> string \<Rightarrow> ref option" where
  "get_student sc k = reg_students sc k"

definition get_teacher :: "school \<Rightarrow> string \<Rightarrow> ref option" where
  "get_teacher sc k = reg_teachers sc k"

definition get_course :: "school \<Rightarrow> string \<Rightarrow> ref option" where
  "get_course sc k = reg_courses sc k"

section \<open>HealthCare.py: the hospital\<close>

subsection \<open>Classes\<close>

datatype BloodType =
    A_POSITIVE | A_NEGATIVE | B_POSITIVE | B_NEGATIVE
  | O_POSITIVE | O_NEGATIVE | AB_POSITIVE | AB_NEGATIVE

record hc_person =
  hc_person_id :: string
  hc_name :: string
  hc_email :: string
  hc_phone :: string
  date_of_birth :: timestamp
  hc_created_at :: timestamp

text \<open>
  The fields \<^verbatim>\<open>Patient.__init__\<close> lists, but for \<^verbatim>\<open>_is_admitted\<close>: the class defines a
  property of that name (lines 124 to 126), so no object stores a value under it.
\<close>

record patient = hc_person +
  blood_type :: BloodType
  medical_history :: "string list"
  allergies :: "string list"
  room :: "ref option"
  admission_date :: "timestamp option"
  discharge_date :: "timestamp option"
  appointments :: "ref list"
  assigned_doctor :: "ref option"
  vital_signs :: "string \<rightharpoonup> string \<times> pyfloat \<times> int \<times> int"

record doctor = hc_person +
  specialization :: string
  license_number :: string
  doc_hire_date :: timestamp
  doc_patients :: "ref list"
  doc_appointments :: "ref list"
  doc_department :: "ref option"
  doc_salary :: pyfloat

text \<open>The class Room is not part of the source; its objects are of a type \<open>'room\<close>.\<close>

record 'room hospital =
  patients :: "ref \<Rightarrow> patient"
  doctors :: "ref \<Rightarrow> doctor"
  rooms :: "ref \<Rightarrow> 'room"

subsection \<open>The clock\<close>

text \<open>
  HealthCare.py imports the module \<^verbatim>\<open>datetime\<close> (line 4), not the class of that name,
  and the module has no attribute \<^verbatim>\<open>now\<close>: in the file as it stands every evaluation
  of \<^verbatim>\<open>datetime.now()\<close> raises AttributeError. The methods below take the outcome of
  that expression as an argument, so what is proved of them holds for this outcome and
  for every other.
\<close>

definition datetime_now :: "error + 'a" where
  "datetime_now = Inl AttributeError"

subsection \<open>Constructors of Person and Doctor\<close>

text \<open>
  \<open>now\<close> is the outcome of \<^verbatim>\<open>datetime.now()\<close> in \<^verbatim>\<open>Person.__init__\<close> (line 48),
  \<open>hired\<close> the outcome of the one in \<^verbatim>\<open>Doctor.__init__\<close> (line 222). A constructor
  that raises returns no object.
\<close>

definition HC_Person_init ::
  "(error + timestamp) \<Rightarrow> string \<Rightarrow> string \<Rightarrow> string \<Rightarrow> string \<Rightarrow> timestamp
     \<Rightarrow> error + hc_person" where
  "HC_Person_init now pid nm em ph dob =
     (case now of
        Inl e \<Rightarrow> Inl e
      | Inr t \<Rightarrow>
          Inr \<lparr>hc_person_id = pid, hc_name = nm, hc_email = em, hc_phone = ph,
               date_of_birth = dob, hc_created_at = t\<rparr>)"

definition Doctor_init ::
  "(error + timestamp) \<Rightarrow> (error + timestamp) \<Rightarrow> string \<Rightarrow> string \<Rightarrow> string \<Rightarrow> string
     \<Rightarrow> timestamp \<Rightarrow> string \<Rightarrow> string \<Rightarrow> error + doctor" where
  "Doctor_init now hired pid nm em ph dob sp lic =
     (case HC_Person_init now pid nm em ph dob of
        Inl e \<Rightarrow> Inl e
      | Inr b \<Rightarrow>
          (case hired of
             Inl e \<Rightarrow> Inl e
           | Inr t \<Rightarrow>
               Inr \<lparr>hc_person_id = hc_person_id b, hc_name = hc_name b, hc_email = hc_email b,
                    hc_phone = hc_phone b, date_of_birth = date_of_birth b,
                    hc_created_at = hc_created_at b,
                    specialization = sp, license_number = lic, doc_hire_date = t,
                    doc_patients = [], doc_appointments = [], doc_department = None,
                    doc_salary = Fin 0\<rparr>))"

subsection \<open>Person: the properties as the class body leaves them\<close>

text \<open>
  The class body first binds \<^verbatim>\<open>name\<close> to a property with the name getter and the name
  setter, then rebinds it by \<^verbatim>\<open>@email.setter def name\<close> (lines 68 to 72) to a property
  with the getter of \<^verbatim>\<open>email\<close> and the second setter; \<^verbatim>\<open>email\<close> keeps its getter and
  has no setter. \<^verbatim>\<open>valueError\<close> is not defined, so raising it is a NameError.
\<close>

definition HC_Person_get_name :: "'a hc_person_scheme \<Rightarrow> string" where
  "HC_Person_get_name p = hc_email p"

definition HC_Person_set_name ::
  "'a hc_person_scheme \<Rightarrow> string \<Rightarrow> (error + unit) \<times> 'a hc_person_scheme" where
  "HC_Person_set_name p v =
     (if CHR ''@'' \<notin> set (strip v) then (Inl NameError, p)
      else (Inr (), p\<lparr>hc_email := v\<rparr>))"

definition HC_Person_get_email :: "'a hc_person_scheme \<Rightarrow> string" where
  "HC_Person_get_email p = hc_email p"

definition HC_Person_set_email ::
  "'a hc_person_scheme \<Rightarrow> string \<Rightarrow> (error + unit) \<times> 'a hc_person_scheme" where
  "HC_Person_set_email p v = (Inl AttributeError, p)"

definition HC_Person_set_phone ::
  "'a hc_person_scheme \<Rightarrow> string \<Rightarrow> (error + unit) \<times> 'a hc_person_scheme" where
  "HC_Person_set_phone p v = (Inr (), p\<lparr>hc_phone := v\<rparr>)"

subsection \<open>Doctor\<close>

definition Doctor_set_salary :: "doctor \<Rightarrow> pyfloat \<Rightarrow> (error + unit) \<times> doctor" where
  "Doctor_set_salary d v =
     (if py_lt v (Fin 0) then (Inl ValueError, d) else (Inr (), d\<lparr>doc_salary := v\<rparr>))"

definition Doctor_add_patient :: "'room hospital \<Rightarrow> ref \<Rightarrow> ref \<Rightarrow> 'room hospital" where
  "Doctor_add_patient h d p =
     (if p \<notin> set (doc_patients (doctors h d))
      then h\<lparr>doctors := (doctors h)
               (d := (doctors h d)\<lparr>doc_patients := doc_patients (doctors h d) @ [p]\<rparr>)\<rparr>
      else h)"

definition Doctor_remove_patient :: "'room hospital \<Rightarrow> ref \<Rightarrow> ref \<Rightarrow> 'room hospital" where
  "Doctor_remove_patient h d p =
     (if p \<in> set (doc_patients (doctors h d))
      then h\<lparr>doctors := (doctors h)
               (d := (doctors h d)\<lparr>doc_patients := remove1 p (doc_patients (doctors h d))\<rparr>)\<rparr>
      else h)"

definition Doctor_schedule_appointment :: "'room hospital \<Rightarrow> ref \<Rightarrow> ref \<Rightarrow> 'room hospital" where
  "Doctor_schedule_appointment h d a =
     (if a \<notin> set (doc_appointments (doctors h d))
      then h\<lparr>doctors := (doctors h)
               (d := (doctors h d)\<lparr>doc_appointments := doc_appointments (doctors h d) @ [a]\<rparr>)\<rparr>
      else h)"

definition Doctor_prescribe_medication ::
  "'room hospital \<Rightarrow> ref \<Rightarrow> ref \<Rightarrow> ref \<Rightarrow> ref \<times> 'room hospital" where
  "Doctor_prescribe_medication h d p prescription = (prescription, h)"

subsection \<open>Patient\<close>

text \<open>
  Reading \<^verbatim>\<open>self._is_admitted\<close> calls the property's getter, whose body reads
  \<^verbatim>\<open>self._is_admitted\<close> again: each call uses one of the \<open>depth\<close> frames the
  interpreter has left, and with none left RecursionError is raised. The property has
  no setter, so assigning to it raises AttributeError.
\<close>

fun Patient_is_admitted :: "nat \<Rightarrow> patient \<Rightarrow> error + bool" where
  "Patient_is_admitted 0 p = Inl RecursionError"
| "Patient_is_admitted (Suc depth) p = Patient_is_admitted depth p"

definition Patient_set_is_admitted :: "patient \<Rightarrow> bool \<Rightarrow> error + patient" where
  "Patient_set_is_admitted p v = Inl AttributeError"

text \<open>
  \<^verbatim>\<open>Patient.__init__\<close>: the call of \<^verbatim>\<open>Person.__init__\<close>, the fields of lines 108 to
  115, the assignment \<^verbatim>\<open>self._is_admitted = False\<close> (line 116) and the vital signs
  (line 117).
\<close>

definition Patient_init ::
  "(error + timestamp) \<Rightarrow> string \<Rightarrow> string \<Rightarrow> string \<Rightarrow> string \<Rightarrow> timestamp \<Rightarrow> BloodType
     \<Rightarrow> error + patient" where
  "Patient_init now pid nm em ph dob bt =
     (case HC_Person_init now pid nm em ph dob of
        Inl e \<Rightarrow> Inl e
      | Inr b \<Rightarrow>
          (case Patient_set_is_admitted
                  \<lparr>hc_person_id = hc_person_id b, hc_name = hc_name b, hc_email = hc_email b,
                   hc_phone = hc_phone b, date_of_birth = date_of_birth b,
                   hc_created_at = hc_created_at b,
                   blood_type = bt, medical_history = [], allergies = [], room = None,
                   admission_date = None, discharge_date = None, appointments = [],
                   assigned_doctor = None, vital_signs = Map.empty\<rparr> False of
             Inl e \<Rightarrow> Inl e
           | Inr p \<Rightarrow> Inr (p\<lparr>vital_signs := Map.empty\<rparr>)))"

text \<open>
  \<^verbatim>\<open>add_allergy\<close> is declared a property (line 128) with a second parameter: reading
  \<^verbatim>\<open>p.add_allergy\<close> calls it with the object alone, which is a TypeError, before any
  argument is passed.
\<close>

definition Patient_add_allergy ::
  "'room hospital \<Rightarrow> ref \<Rightarrow> string \<Rightarrow> (error + string list) \<times> 'room hospital" where
  "Patient_add_allergy h p allergy = (Inl TypeError, h)"

text \<open>
  \<open>now\<close> is the outcome of \<^verbatim>\<open>datetime.now().strftime('%Y-%m-%d %H:%M:%S')\<close>. The
  receiver \<^verbatim>\<open>self._medical_history.append\<close> is looked up before the argument is
  evaluated, and nothing is appended when the argument raises.
\<close>

definition Patient_add_medical_history ::
  "(error + string) \<Rightarrow> 'room hospital \<Rightarrow> ref \<Rightarrow> string
     \<Rightarrow> (error + string list) \<times> 'room hospital" where
  "Patient_add_medical_history now h p history =
     (case now of
        Inl e \<Rightarrow> (Inl e, h)
      | Inr ts \<Rightarrow>
          let entries = medical_history (patients h p) @ [ts @ '': '' @ history]
          in (Inr entries, h\<lparr>patients := (patients h)
                                (p := (patients h p)\<lparr>medical_history := entries\<rparr>)\<rparr>))"

definition Patient_assign_doctor :: "'room hospital \<Rightarrow> ref \<Rightarrow> ref \<Rightarrow> ref option \<times> 'room hospital" where
  "Patient_assign_doctor h p d =
     (let h1 = h\<lparr>patients := (patients h)(p := (patients h p)\<lparr>assigned_doctor := Some d\<rparr>)\<rparr>
      in (assigned_doctor (patients h1 p), h1))"

text \<open>
  \<open>now\<close> is the outcome of \<^verbatim>\<open>datetime.now()\<close>, \<open>occupy\<close> the method
  \<^verbatim>\<open>Room.occupy\<close>, which the source calls and does not define. The result is what the
  call returns: \<open>None\<close> for Python's None at the end of the first branch.
\<close>

definition Patient_admit_to_hospital ::
  "nat \<Rightarrow> (error + timestamp) \<Rightarrow> ('room \<Rightarrow> ref \<Rightarrow> error + 'room) \<Rightarrow> 'room hospital
     \<Rightarrow> ref \<Rightarrow> ref \<Rightarrow> (error + bool option) \<times> 'room hospital" where
  "Patient_admit_to_hospital depth now occupy h p r =
     (case Patient_is_admitted depth (patients h p) of
        Inl e \<Rightarrow> (Inl e, h)
      | Inr adm \<Rightarrow>
          if \<not> adm then
            let h1 = h\<lparr>patients := (patients h)(p := (patients h p)\<lparr>room := Some r\<rparr>)\<rparr>
            in (case now of
                  Inl e \<Rightarrow> (Inl e, h1)
                | Inr t \<Rightarrow>
                    let h2 = h1\<lparr>patients := (patients h1)
                                  (p := (patients h1 p)\<lparr>admission_date := Some t\<rparr>)\<rparr>
                    in (case Patient_set_is_admitted (patients h2 p) True of
                          Inl e \<Rightarrow> (Inl e, h2)
                        | Inr p' \<Rightarrow>
                            let h3 = h2\<lparr>patients := (patients h2)(p := p')\<rparr>
                            in (case occupy (rooms h3 r) p of
                                  Inl e \<Rightarrow> (Inl e, h3)
                                | Inr rm \<Rightarrow> (Inr None, h3\<lparr>rooms := (rooms h3)(r := rm)\<rparr>))))
          else (case Patient_is_admitted depth (patients h p) of
                  Inl e \<Rightarrow> (Inl e, h)
                | Inr b \<Rightarrow> (Inr (Some b), h)))"

definition Patient_Schedule_appointment ::
  "'room hospital \<Rightarrow> ref \<Rightarrow> ref \<Rightarrow> bool \<times> 'room hospital" where
  "Patient_Schedule_appointment h p a =
     (if a \<notin> set (appointments (patients h p))
      then (True, h\<lparr>patients := (patients h)
                      (p := (patients h p)\<lparr>appointments := appointments (patients h p) @ [a]\<rparr>)\<rparr>)
      else (False, h))"

text \<open>
  \<open>vacate\<close> is the method \<^verbatim>\<open>Room.vacate\<close>, which the source calls and does not
  define; a room object counts as true in \<^verbatim>\<open>self._is_admitted and self._room\<close>.
\<close>

definition Patient_discharge ::
  "nat \<Rightarrow> ('room \<Rightarrow> error + 'room) \<Rightarrow> 'room hospital \<Rightarrow> ref
     \<Rightarrow> (error + bool option) \<times> 'room hospital" where
  "Patient_discharge depth vacate h p =
     (case Patient_is_admitted depth (patients h p) of
        Inl e \<Rightarrow> (Inl e, h)
      | Inr adm \<Rightarrow>
          (case (if adm then room (patients h p) else None) of
             Some r \<Rightarrow>
               (case vacate (rooms h r) of
                  Inl e \<Rightarrow> (Inl e, h)
                | Inr rm \<Rightarrow>
                    let h1 = h\<lparr>rooms := (rooms h)(r := rm)\<rparr>;
                        h2 = h1\<lparr>patients := (patients h1)
                                  (p := (patients h1 p)\<lparr>room := None, admission_date := None\<rparr>)\<rparr>
                    in (case Patient_set_is_admitted (patients h2 p) False of
                          Inl e \<Rightarrow> (Inl e, h2)
                        | Inr p' \<Rightarrow> (Inr None, h2\<lparr>patients := (patients h2)(p := p')\<rparr>)))
           | None \<Rightarrow>
               (case Patient_is_admitted depth (patients h p) of
                  Inl e \<Rightarrow> (Inl e, h)
                | Inr b \<Rightarrow> (Inr (Some b), h))))"

text \<open>\<open>stamp\<close> is the outcome of \<^verbatim>\<open>datetime.now().strftime("%Y-m-%d %H:%M:%S")\<close>.\<close>

definition Patient_update_vital_signs ::
  "(error + string) \<Rightarrow> 'room hospital \<Rightarrow> ref \<Rightarrow> string \<Rightarrow> pyfloat \<Rightarrow> int \<Rightarrow> int
     \<Rightarrow> (error + (string \<rightharpoonup> string \<times> pyfloat \<times> int \<times> int)) \<times> 'room hospital" where
  "Patient_update_vital_signs stamp h p blood_pressure temperature heart_rate pulse =
     (case stamp of
        Inl e \<Rightarrow> (Inl e, h)
      | Inr ts \<Rightarrow>
          let vs = (vital_signs (patients h p))
                     (ts \<mapsto> (blood_pressure, temperature, heart_rate, pulse))
          in (Inr vs, h\<lparr>patients := (patients h)(p := (patients h p)\<lparr>vital_signs := vs\<rparr>)\<rparr>))"

text \<open>\<^verbatim>\<open>Doctor.write_diagnosis\<close> records the diagnosis in the patient's history.\<close>

definition Doctor_write_diagnosis ::
  "(error + string) \<Rightarrow> 'room hospital \<Rightarrow> ref \<Rightarrow> ref \<Rightarrow> string
     \<Rightarrow> (error + unit) \<times> 'room hospital" where
  "Doctor_write_diagnosis now h d p diagnosis =
     (case Patient_add_medical_history now h p (''Diagnosis: '' @ diagnosis) of
        (Inl e, h1) \<Rightarrow> (Inl e, h1)
      | (Inr entries, h1) \<Rightarrow> (Inr (), h1))"

subsection \<open>Sequences of calls\<close>

text \<open>
  What the calls of a run meet outside the objects: the frames the interpreter has left,
  the outcomes of the clock expressions, and the two methods of Room.
\<close>

record 'room world =
  w_depth :: nat
  w_now :: "error + timestamp"
  w_history_stamp :: "error + string"
  w_vitals_stamp :: "error + string"
  w_occupy :: "'room \<Rightarrow> ref \<Rightarrow> error + 'room"
  w_vacate :: "'room \<Rightarrow> error + 'room"

text \<open>
  Every method and property setter of Person, Patient and Doctor that can change an
  object, and the method \<^verbatim>\<open>prescribe_medication\<close>, as one call each.
\<close>

datatype hc_op =
    Set_patient_name ref string
  | Set_patient_email ref string
  | Set_patient_phone ref string
  | Set_doctor_name ref string
  | Set_doctor_email ref string
  | Set_doctor_phone ref string
  | Set_doctor_salary ref pyfloat
  | Add_allergy ref string
  | Add_medical_history ref string
  | Assign_doctor ref ref
  | Schedule_appointment ref ref
  | Admit_to_hospital ref ref
  | Discharge ref
  | Update_vital_signs ref string pyfloat int int
  | Doctor_add ref ref
  | Doctor_remove ref ref
  | Doctor_schedule ref ref
  | Prescribe_medication ref ref ref
  | Write_diagnosis ref ref string

fun hc_exec :: "'room world \<Rightarrow> hc_op \<Rightarrow> 'room hospital \<Rightarrow> 'room hospital" where
  "hc_exec w (Set_patient_name p v) h =
     h\<lparr>patients := (patients h)(p := snd (HC_Person_set_name (patients h p) v))\<rparr>"
| "hc_exec w (Set_patient_email p v) h =
     h\<lparr>patients := (patients h)(p := snd (HC_Person_set_email (patients h p) v))\<rparr>"
| "hc_exec w (Set_patient_phone p v) h =
     h\<lparr>patients := (patients h)(p := snd (HC_Person_set_phone (patients h p) v))\<rparr>"
| "hc_exec w (Set_doctor_name d v) h =
     h\<lparr>doctors := (doctors h)(d := snd (HC_Person_set_name (doctors h d) v))\<rparr>"
| "hc_exec w (Set_doctor_email d v) h =
     h\<lparr>doctors := (doctors h)(d := snd (HC_Person_set_email (doctors h d) v))\<rparr>"
| "hc_exec w (Set_doctor_phone d v) h =
     h\<lparr>doctors := (doctors h)(d := snd (HC_Person_set_phone (doctors h d) v))\<rparr>"
| "hc_exec w (Set_doctor_salary d v) h =
     h\<lparr>doctors := (doctors h)(d := snd (Doctor_set_salary (doctors h d) v))\<rparr>"
| "hc_exec w (Add_allergy p a) h = snd (Patient_add_allergy h p a)"
| "hc_exec w (Add_medical_history p entry) h =
     snd (Patient_add_medical_history (w_history_stamp w) h p entry)"
| "hc_exec w (Assign_doctor p d) h = snd (Patient_assign_doctor h p d)"
| "hc_exec w (Schedule_appointment p a) h = snd (Patient_Schedule_appointment h p a)"
| "hc_exec w (Admit_to_hospital p r) h =
     snd (Patient_admit_to_hospital (w_depth w) (w_now w) (w_occupy w) h p r)"
| "hc_exec w (Discharge p) h = snd (Patient_discharge (w_depth w) (w_vacate w) h p)"
| "hc_exec w (Update_vital_signs p bp t hr pl) h =
     snd (Patient_update_vital_signs (w_vitals_stamp w) h p bp t hr pl)"
| "hc_exec w (Doctor_add d p) h = Doctor_add_patient h d p"
| "hc_exec w (Doctor_remove d p) h = Doctor_remove_patient h d p"
| "hc_exec w (Doctor_schedule d a) h = Doctor_schedule_appointment h d a"
| "hc_exec w (Prescribe_medication d p x) h = snd (Doctor_prescribe_medication h d p x)"
| "hc_exec w (Write_diagnosis d p x) h =
     snd (Doctor_write_diagnosis (w_history_stamp w) h d p x)"

definition hc_run :: "'room world \<Rightarrow> hc_op list \<Rightarrow> 'room hospital \<Rightarrow> 'room hospital" where
  "hc_run w ops h = fold (hc_exec w) ops h"

section \<open>main.py: the earlier Person\<close>

text \<open>
  main.py holds an earlier copy of the hospital's Person, with the fields of the
  school's. Its class body rebinds \<^verbatim>\<open>name\<close> in the same way (lines 36 to 40), with
  the emptiness test in the second setter too, and it imports the module
  \<^verbatim>\<open>datetime\<close> as HealthCare.py does: \<open>now\<close> is the outcome of \<^verbatim>\<open>datetime.now()\<close>
  in the constructor (line 16).
\<close>

definition Main_Person_init ::
  "(error + timestamp) \<Rightarrow> string \<Rightarrow> string \<Rightarrow> string \<Rightarrow> string \<Rightarrow> error + person" where
  "Main_Person_init now pid nm em ph =
     (case now of
        Inl e \<Rightarrow> Inl e
      | Inr t \<Rightarrow>
          Inr \<lparr>person_id = pid, name = nm, email = em, phone = ph, created_at = t\<rparr>)"

definition Main_Person_set_name ::
  "'a person_scheme \<Rightarrow> string \<Rightarrow> (error + unit) \<times> 'a person_scheme" where
  "Main_Person_set_name p v =
     (if strip v = [] then (Inl NameError, p) else (Inr (), p\<lparr>email := v\<rparr>))"

definition Main_Person_set_email ::
  "'a person_scheme \<Rightarrow> string \<Rightarrow> (error + unit) \<times> 'a person_scheme" where
  "Main_Person_set_email p v = (Inl AttributeError, p)"

section \<open>Concrete stores\<close>

text \<open>A school whose courses all have the capacity \<open>cap\<close>, right after construction.\<close>

definition new_school :: "int \<Rightarrow> heap" where
  "new_school cap =
     \<lparr>students = (\<lambda>_. Student_init 0 ''S001'' ''Alice'' ''alice@school.com'' ''555-0201'' 10 None),
      teachers = (\<lambda>_. Teacher_init 0 ''T001'' ''John'' ''john@school.com'' ''555-0101'' ''Math'' None),
      courses = (\<lambda>_. Course_init ''C001'' ''Algebra'' ''Introduction'' 3 cap),
      departments = (\<lambda>_. Department_init ''DEPT001'' ''Mathematics'' None)\<rparr>"

text \<open>
  The school of capacity 2 with course 0 replaced by one constructed with the capacity
  \<open>-1\<close>.
\<close>

definition mixed_school :: heap where
  "mixed_school =
     (new_school 2)\<lparr>courses := (courses (new_school 2))
        (0 := Course_init ''C000'' ''Void'' ''No seats'' 1 (- 1))\<rparr>"

section \<open>The capacity of a course\<close>

lemma Student_enroll_course_courses:
  "courses (snd (Student_enroll_course h s c)) =
     (if c \<in> set (enrolled_courses (students h s)) then courses h
      else courses (snd (Course_add_student h c s)))"
  by (simp add: Student_enroll_course_def Course_add_student_def Let_def)

lemma Student_drop_course_courses:
  "courses (snd (Student_drop_course h s c)) =
     (if c \<in> set (enrolled_courses (students h s)) then courses (Course_remove_student h c s)
      else courses h)"
  by (simp add: Student_drop_course_def Let_def)

lemma Course_add_student_within:
  "within_capacity h k \<Longrightarrow> within_capacity (snd (Course_add_student h c s)) k"
  by (auto simp: within_capacity_def Course_add_student_def Let_def)

lemma Course_remove_student_within:
  "within_capacity h k \<Longrightarrow> within_capacity (Course_remove_student h c s) k"
proof -
  assume a: "within_capacity h k"
  have "int (length (remove1 s (enrolled_students (courses h c)))) \<le> max_students (courses h c)"
    if "k = c"
  proof -
    have "length (remove1 s (enrolled_students (courses h c)))
            \<le> length (enrolled_students (courses h c))"
      by (simp add: length_remove1)
    moreover have "int (length (enrolled_students (courses h c))) \<le> max_students (courses h c)"
      using a that by (simp add: within_capacity_def)
    ultimately show ?thesis by linarith
  qed
  with a show ?thesis
    by (simp add: within_capacity_def Course_remove_student_def Let_def)
qed

lemma Course_add_student_max:
  "max_students (courses (snd (Course_add_student h c s)) k) = max_students (courses h k)"
  by (simp add: Course_add_student_def Let_def)

lemma Course_remove_student_max:
  "max_students (courses (Course_remove_student h c s) k) = max_students (courses h k)"
  by (simp add: Course_remove_student_def Let_def)

lemma exec_max_students:
  "max_students (courses (exec op h) k) = max_students (courses h k)"
proof (cases op)
  case (Enroll_course s c)
  then show ?thesis
    by (simp add: Student_enroll_course_courses Course_add_student_max)
next
  case (Drop_course s c)
  then show ?thesis
    by (simp add: Student_drop_course_courses Course_remove_student_max)
next
  case (Add_grade s cid g)
  then show ?thesis by (simp add: Student_add_grade_def)
next
  case (Add_student c s)
  then show ?thesis by (simp add: Course_add_student_max)
next
  case (Remove_student c s)
  then show ?thesis by (simp add: Course_remove_student_max)
next
  case (Set_teacher c t)
  then show ?thesis by (simp add: Course_set_teacher_def)
next
  case (Assign_course t c)
  then show ?thesis by (simp add: Teacher_assign_course_def Course_set_teacher_def)
next
  case (Remove_course t c)
  then show ?thesis by (simp add: Teacher_remove_course_def)
next
  case (Set_course_name c v)
  then show ?thesis by (simp add: Course_set_name_def)
next
  case (Dept_add_course d c)
  then show ?thesis by (simp add: Department_add_course_def)
next
  case (Dept_remove_course d c)
  then show ?thesis by (simp add: Department_remove_course_def)
next
  case (Dept_add_teacher d c)
  then show ?thesis by (simp add: Department_add_teacher_def)
next
  case (Dept_remove_teacher d c)
  then show ?thesis by (simp add: Department_remove_teacher_def)
next
  case (Dept_set_head d c)
  then show ?thesis by (simp add: Department_set_head_def)
qed simp_all

lemma exec_within_capacity: "within_capacity h k \<Longrightarrow> within_capacity (exec op h) k"
proof (cases op)
  case (Enroll_course s c)
  assume a: "within_capacity h k"
  show ?thesis
    using a Course_add_student_within [OF a, of c s] Enroll_course
    by (simp add: within_capacity_def Student_enroll_course_courses)
next
  case (Drop_course s c)
  assume a: "within_capacity h k"
  show ?thesis
    using a Course_remove_student_within [OF a, of c s] Drop_course
    by (simp add: within_capacity_def Student_drop_course_courses)
next
  case (Add_grade s cid g)
  assume "within_capacity h k"
  then show ?thesis using Add_grade
    by (simp add: within_capacity_def Student_add_grade_def)
next
  case (Add_student c s)
  assume "within_capacity h k"
  then show ?thesis using Add_student by (simp add: Course_add_student_within)
next
  case (Remove_student c s)
  assume "within_capacity h k"
  then show ?thesis using Remove_student by (simp add: Course_remove_student_within)
next
  case (Set_teacher c t)
  assume "within_capacity h k"
  then show ?thesis using Set_teacher
    by (auto simp: within_capacity_def Course_set_teacher_def)
next
  case (Assign_course t c)
  assume "within_capacity h k"
  then show ?thesis using Assign_course
    by (auto simp: within_capacity_def Teacher_assign_course_def Course_set_teacher_def)
next
  case (Remove_course t c)
  assume "within_capacity h k"
  then show ?thesis using Remove_course
    by (simp add: within_capacity_def Teacher_remove_course_def)
next
  case (Set_course_name c v)
  assume "within_capacity h k"
  then show ?thesis using Set_course_name
    by (auto simp: within_capacity_def Course_set_name_def)
next
  case (Dept_add_course d c)
  assume "within_capacity h k"
  then show ?thesis using Dept_add_course
    by (simp add: within_capacity_def Department_add_course_def)
next
  case (Dept_remove_course d c)
  assume "within_capacity h k"
  then show ?thesis using Dept_remove_course
    by (simp add: within_capacity_def Department_remove_course_def)
next
  case (Dept_add_teacher d c)
  assume "within_capacity h k"
  then show ?thesis using Dept_add_teacher
    by (simp add: within_capacity_def Department_add_teacher_def)
next
  case (Dept_remove_teacher d c)
  assume "within_capacity h k"
  then show ?thesis using Dept_remove_teacher
    by (simp add: within_capacity_def Department_remove_teacher_def)
next
  case (Dept_set_head d c)
  assume "within_capacity h k"
  then show ?thesis using Dept_set_head
    by (simp add: within_capacity_def Department_set_head_def)
qed (simp_all add: within_capacity_def)

lemma run_within_capacity: "within_capacity h k \<Longrightarrow> within_capacity (run ops h) k"
  unfolding run_def by (induction ops arbitrary: h) (simp_all add: exec_within_capacity)

lemma run_max_students: "max_students (courses (run ops h) k) = max_students (courses h k)"
  unfolding run_def by (induction ops arbitrary: h) (simp_all add: exec_max_students)

text \<open>
  Claim C1, as the code has it. Take any store and in it a course as its constructor
  leaves it, constructed with a capacity \<open>mx\<close> that is not negative; the other objects
  of the store are arbitrary. After any sequence of calls the capacity of the course is
  still \<open>mx\<close> and the course holds no more than \<open>mx\<close> students. In every store,
  \<^verbatim>\<open>Course.add_student\<close> refuses (returns False and changes nothing) whenever the
  number of enrolled students has reached \<open>max_students\<close>.
\<close>

theorem course_capacity_invariant:
  "courses h c = Course_init cid nm ds cr mx \<Longrightarrow> 0 \<le> mx \<Longrightarrow>
     max_students (courses (run ops h) c) = mx \<and>
     int (length (enrolled_students (courses (run ops h) c))) \<le> mx \<and>
     (\<forall>g k s. int (length (enrolled_students (courses g k))) \<ge> max_students (courses g k) \<longrightarrow>
        Course_add_student g k s = (False, g))"
proof -
  assume c: "courses h c = Course_init cid nm ds cr mx" and m: "0 \<le> mx"
  have i: "within_capacity h c"
    using c m by (simp add: within_capacity_def Course_init_def)
  have 1: "max_students (courses (run ops h) c) = mx"
    using c by (simp add: run_max_students Course_init_def)
  have "within_capacity (run ops h) c"
    using i by (rule run_within_capacity)
  with 1 have 2: "int (length (enrolled_students (courses (run ops h) c))) \<le> mx"
    by (simp add: within_capacity_def)
  have 3: "\<forall>g k s. int (length (enrolled_students (courses g k))) \<ge> max_students (courses g k) \<longrightarrow>
        Course_add_student g k s = (False, g)"
    by (simp add: Course_add_student_def)
  from 1 2 3 show ?thesis by blast
qed

text \<open>
  The invariant at work in a store that also holds a course of capacity \<open>-1\<close>: course 1,
  of capacity 2, after three enrolments into it; and a course of capacity 0 refusing a
  student.
\<close>

theorem course_capacity_invariant_witness:
  "courses mixed_school 1 = Course_init ''C001'' ''Algebra'' ''Introduction'' 3 2 \<and>
   max_students (courses mixed_school 0) = - 1 \<and>
   max_students (courses
     (run [Enroll_course 1 1, Enroll_course 2 1, Enroll_course 3 1] mixed_school) 1) = 2 \<and>
   int (length (enrolled_students (courses
     (run [Enroll_course 1 1, Enroll_course 2 1, Enroll_course 3 1] mixed_school) 1))) \<le> 2 \<and>
   Course_add_student (new_school 0) 0 1 = (False, new_school 0)"
proof -
  have c: "courses mixed_school 1 = Course_init ''C001'' ''Algebra'' ''Introduction'' 3 2"
    by (simp add: mixed_school_def new_school_def)
  have n: "max_students (courses mixed_school 0) = - 1"
    by (simp add: mixed_school_def Course_init_def)
  have m: "(0::int) \<le> 2" by simp
  have f: "int (length (enrolled_students (courses (new_school 0) 0)))
             \<ge> max_students (courses (new_school 0) 0)"
    by (simp add: new_school_def Course_init_def)
  from course_capacity_invariant
         [OF c m, of "[Enroll_course 1 1, Enroll_course 2 1, Enroll_course 3 1]"] c n f
  show ?thesis by blast
qed

text \<open>
  Claim C1 as stated covers every course: one constructed with \<open>max_students = -1\<close>
  holds 0 students, which exceeds its capacity, before any call is made.
\<close>

theorem course_capacity_counterexample:
  "constructed (new_school (- 1)) \<and>
   \<not> int (length (enrolled_students (courses (run [] (new_school (- 1))) 0)))
        \<le> max_students (courses (run [] (new_school (- 1))) 0)"
  by (simp add: constructed_def new_school_def run_def Student_init_def Teacher_init_def
      Course_init_def Department_init_def)

section \<open>Enrolling and dropping\<close>

lemma Student_enroll_course_eq:
  "Student_enroll_course h s c =
     (if c \<in> set (enrolled_courses (students h s)) \<or>
         s \<in> set (enrolled_students (courses h c)) \<or> is_full (courses h c)
      then (False, h)
      else (True,
        h\<lparr>courses := (courses h)
             (c := (courses h c)\<lparr>enrolled_students := enrolled_students (courses h c) @ [s]\<rparr>),
          students := (students h)
             (s := (students h s)\<lparr>enrolled_courses := enrolled_courses (students h s) @ [c]\<rparr>)\<rparr>))"
  by (simp add: Student_enroll_course_def Course_add_student_def is_full_def Let_def)

lemma Student_drop_course_eq:
  "Student_drop_course h s c =
     (if c \<notin> set (enrolled_courses (students h s)) then (False, h)
      else (True,
        h\<lparr>courses := (courses h)
             (c := (courses h c)\<lparr>enrolled_students := remove1 s (enrolled_students (courses h c))\<rparr>),
          students := (students h)
             (s := (students h s)
                \<lparr>enrolled_courses := remove1 c (enrolled_courses (students h s)),
                 grades := (grades (students h s))(course_id (courses h c) := None)\<rparr>)\<rparr>))"
proof -
  have r: "remove1 s xs = xs" if "s \<notin> set xs" for xs :: "ref list"
    using that by (simp add: remove1_idem)
  have g: "m(k := None) = m" if "k \<notin> dom m" for m :: "string \<rightharpoonup> pyfloat" and k
    using that by (auto simp: fun_eq_iff)
  show ?thesis
    by (auto simp: Student_drop_course_def Course_remove_student_def Let_def r g)
qed

text \<open>
  Claim C2. The link between a student and a course exists when either side lists the
  other. \<^verbatim>\<open>Student.enroll_course\<close> returns False and changes nothing when the link
  exists or the course is at capacity; otherwise it appends the student to the course's
  list and the course to the student's list, changes nothing else, and returns True.
  On an empty course of capacity 2, enrolling three distinct students who do not hold
  the course makes the first two calls return True and the third return False, and the
  course holds exactly the first two.
\<close>

theorem enroll_course_link:
  "Student_enroll_course h s c =
     (if c \<in> set (enrolled_courses (students h s)) \<or>
         s \<in> set (enrolled_students (courses h c)) \<or> is_full (courses h c)
      then (False, h)
      else (True,
        h\<lparr>courses := (courses h)
             (c := (courses h c)\<lparr>enrolled_students := enrolled_students (courses h c) @ [s]\<rparr>),
          students := (students h)
             (s := (students h s)\<lparr>enrolled_courses := enrolled_courses (students h s) @ [c]\<rparr>)\<rparr>))
   \<and> (enrolled_students (courses h c) = [] \<and> max_students (courses h c) = 2 \<and>
      distinct [s1, s2, s3] \<and>
      c \<notin> set (enrolled_courses (students h s1)) \<and>
      c \<notin> set (enrolled_courses (students h s2)) \<and>
      c \<notin> set (enrolled_courses (students h s3)) \<longrightarrow>
      (let (r1, h1) = Student_enroll_course h s1 c;
           (r2, h2) = Student_enroll_course h1 s2 c;
           (r3, h3) = Student_enroll_course h2 s3 c
       in r1 \<and> r2 \<and> \<not> r3 \<and> h3 = h2 \<and> enrolled_students (courses h3 c) = [s1, s2]))"
  by (simp add: Student_enroll_course_eq is_full_def)

text \<open>The scenario on the school of capacity 2, with the students 1, 2 and 3.\<close>

theorem enroll_course_link_witness:
  "(enrolled_students (courses (new_school 2) 0) = [] \<and>
    max_students (courses (new_school 2) 0) = 2 \<and> distinct [1, 2, 3 :: ref] \<and>
    0 \<notin> set (enrolled_courses (students (new_school 2) 1)) \<and>
    0 \<notin> set (enrolled_courses (students (new_school 2) 2)) \<and>
    0 \<notin> set (enrolled_courses (students (new_school 2) 3))) \<and>
   (let (r1, h1) = Student_enroll_course (new_school 2) 1 0;
        (r2, h2) = Student_enroll_course h1 2 0;
        (r3, h3) = Student_enroll_course h2 3 0
    in r1 \<and> r2 \<and> \<not> r3 \<and> h3 = h2 \<and> enrolled_students (courses h3 0) = [1, 2])"
proof -
  have hyp: "enrolled_students (courses (new_school 2) 0) = [] \<and>
    max_students (courses (new_school 2) 0) = 2 \<and> distinct [1, 2, 3 :: ref] \<and>
    0 \<notin> set (enrolled_courses (students (new_school 2) 1)) \<and>
    0 \<notin> set (enrolled_courses (students (new_school 2) 2)) \<and>
    0 \<notin> set (enrolled_courses (students (new_school 2) 3))"
    by (simp add: new_school_def Student_init_def Course_init_def)
  with enroll_course_link [of "new_school 2" 1 0 1 2 3] show ?thesis
    by blast
qed

text \<open>
  Claim C3. \<^verbatim>\<open>Student.drop_course\<close> returns False and changes nothing when the course
  is not in the student's list. Otherwise it returns True, removes the course from the
  student's list and the student from the course's list, deletes the student's grade
  under the course's \<open>course_id\<close> (other grades stay), and changes no other object.
\<close>

theorem drop_course_unlink:
  "(c \<notin> set (enrolled_courses (students h s)) \<longrightarrow> Student_drop_course h s c = (False, h)) \<and>
   (c \<in> set (enrolled_courses (students h s)) \<longrightarrow>
      (let (r, h') = Student_drop_course h s c
       in r \<and>
          enrolled_courses (students h' s) = remove1 c (enrolled_courses (students h s)) \<and>
          enrolled_students (courses h' c) = remove1 s (enrolled_students (courses h c)) \<and>
          grades (students h' s) = (grades (students h s))(course_id (courses h c) := None) \<and>
          course_id (courses h c) \<notin> dom (grades (students h' s)) \<and>
          (\<forall>k. k \<noteq> course_id (courses h c) \<longrightarrow> grades (students h' s) k = grades (students h s) k) \<and>
          (\<forall>s'. s' \<noteq> s \<longrightarrow> students h' s' = students h s') \<and>
          (\<forall>c'. c' \<noteq> c \<longrightarrow> courses h' c' = courses h c') \<and>
          teachers h' = teachers h \<and> departments h' = departments h))"
  by (simp add: Student_drop_course_eq)

text \<open>A student enrolled in a course drops it; a student not enrolled is refused.\<close>

theorem drop_course_unlink_witness:
  "0 \<notin> set (enrolled_courses (students (new_school 2) 1)) \<and>
   Student_drop_course (new_school 2) 1 0 = (False, new_school 2) \<and>
   0 \<in> set (enrolled_courses (students (run [Enroll_course 1 0] (new_school 2)) 1)) \<and>
   fst (Student_drop_course (run [Enroll_course 1 0] (new_school 2)) 1 0)"
proof -
  have a: "0 \<notin> set (enrolled_courses (students (new_school 2) 1))"
    by (simp add: new_school_def Student_init_def)
  have b: "0 \<in> set (enrolled_courses (students (run [Enroll_course 1 0] (new_school 2)) 1))"
    by (simp add: run_def Student_enroll_course_eq is_full_def new_school_def
        Student_init_def Course_init_def)
  from drop_course_unlink [of 0 "new_school 2" 1] a
  have c: "Student_drop_course (new_school 2) 1 0 = (False, new_school 2)" by blast
  from drop_course_unlink [of 0 "run [Enroll_course 1 0] (new_school 2)" 1] b
  have d: "fst (Student_drop_course (run [Enroll_course 1 0] (new_school 2)) 1 0)"
    by (simp add: case_prod_beta)
  from a b c d show ?thesis by blast
qed

text \<open>
  Claim C4. When a student and a course are not linked and the course is below capacity,
  \<^verbatim>\<open>enroll_course\<close> followed by \<^verbatim>\<open>drop_course\<close> for the same pair succeeds twice and
  leaves the student's list of courses and the course's list of students as they were
  before; every course and every other student is unchanged.
\<close>

theorem enroll_drop_round_trip:
  "c \<notin> set (enrolled_courses (students h s)) \<Longrightarrow>
   s \<notin> set (enrolled_students (courses h c)) \<Longrightarrow> \<not> is_full (courses h c) \<Longrightarrow>
     (let (r1, h1) = Student_enroll_course h s c;
          (r2, h2) = Student_drop_course h1 s c
      in r1 \<and> r2 \<and>
         enrolled_courses (students h2 s) = enrolled_courses (students h s) \<and>
         enrolled_students (courses h2 c) = enrolled_students (courses h c) \<and>
         courses h2 = courses h \<and>
         (\<forall>s'. s' \<noteq> s \<longrightarrow> students h2 s' = students h s'))"
  by (simp add: Student_enroll_course_eq Student_drop_course_eq remove1_append)

text \<open>The round trip for student 1 and course 0 of the school of capacity 2.\<close>

theorem enroll_drop_round_trip_witness:
  "0 \<notin> set (enrolled_courses (students (new_school 2) 1)) \<and>
   1 \<notin> set (enrolled_students (courses (new_school 2) 0)) \<and>
   \<not> is_full (courses (new_school 2) 0) \<and>
   (let (r1, h1) = Student_enroll_course (new_school 2) 1 0;
        (r2, h2) = Student_drop_course h1 1 0
    in r1 \<and> r2 \<and>
       enrolled_courses (students h2 1) = enrolled_courses (students (new_school 2) 1) \<and>
       enrolled_students (courses h2 0) = enrolled_students (courses (new_school 2) 0) \<and>
       courses h2 = courses (new_school 2) \<and>
       (\<forall>s'. s' \<noteq> 1 \<longrightarrow> students h2 s' = students (new_school 2) s'))"
proof -
  have a: "0 \<notin> set (enrolled_courses (students (new_school 2) 1))"
    by (simp add: new_school_def Student_init_def)
  have b: "1 \<notin> set (enrolled_students (courses (new_school 2) 0))"
    by (simp add: new_school_def Course_init_def)
  have c: "\<not> is_full (courses (new_school 2) 0)"
    by (simp add: is_full_def new_school_def Course_init_def)
  from enroll_drop_round_trip [OF a b c] a b c show ?thesis by blast
qed

text \<open>
  Claim C5, as the code has it. When the student and the course are not linked and the
  course is below capacity, two calls of \<^verbatim>\<open>enroll_course\<close> for the pair leave exactly
  one edge: the first returns True, the second returns False and changes nothing, the
  course occurs once in the student's list and the student once in the course's list.
  In every other case (a link exists, or the course is at capacity) both calls return
  False and nothing is changed, so that no entry is duplicated and none is created.
\<close>

theorem enroll_twice_one_edge:
  "(c \<notin> set (enrolled_courses (students h s)) \<and>
    s \<notin> set (enrolled_students (courses h c)) \<and> \<not> is_full (courses h c) \<longrightarrow>
      (let (r1, h1) = Student_enroll_course h s c;
           (r2, h2) = Student_enroll_course h1 s c
       in r1 \<and> \<not> r2 \<and> h2 = h1 \<and>
          count_list (enrolled_courses (students h2 s)) c = 1 \<and>
          count_list (enrolled_students (courses h2 c)) s = 1)) \<and>
   (c \<in> set (enrolled_courses (students h s)) \<or>
    s \<in> set (enrolled_students (courses h c)) \<or> is_full (courses h c) \<longrightarrow>
      (let (r1, h1) = Student_enroll_course h s c;
           (r2, h2) = Student_enroll_course h1 s c
       in \<not> r1 \<and> \<not> r2 \<and> h2 = h))"
  by (simp add: Student_enroll_course_eq count_list_0_iff)

text \<open>Student 1 enrols twice in course 0 of the school of capacity 2.\<close>

theorem enroll_twice_one_edge_witness:
  "(0 \<notin> set (enrolled_courses (students (new_school 2) 1)) \<and>
    1 \<notin> set (enrolled_students (courses (new_school 2) 0)) \<and>
    \<not> is_full (courses (new_school 2) 0)) \<and>
   (let (r1, h1) = Student_enroll_course (new_school 2) 1 0;
        (r2, h2) = Student_enroll_course h1 1 0
    in r1 \<and> \<not> r2 \<and> h2 = h1 \<and>
       count_list (enrolled_courses (students h2 1)) 0 = 1 \<and>
       count_list (enrolled_students (courses h2 0)) 1 = 1)"
proof -
  have a: "0 \<notin> set (enrolled_courses (students (new_school 2) 1)) \<and>
    1 \<notin> set (enrolled_students (courses (new_school 2) 0)) \<and>
    \<not> is_full (courses (new_school 2) 0)"
    by (simp add: is_full_def new_school_def Student_init_def Course_init_def)
  with enroll_twice_one_edge [of 0 "new_school 2" 1] show ?thesis by blast
qed

text \<open>
  Claim C5 as stated covers every student and course: in a course of capacity 1 that
  student 1 has filled, student 2 enrols twice, both calls return False, and the course
  is not in the list of student 2.
\<close>

theorem enroll_twice_one_edge_counterexample:
  "\<not> fst (Student_enroll_course (run [Enroll_course 1 0] (new_school 1)) 2 0) \<and>
   \<not> fst (Student_enroll_course
            (snd (Student_enroll_course (run [Enroll_course 1 0] (new_school 1)) 2 0)) 2 0) \<and>
   count_list
     (enrolled_courses (students
        (snd (Student_enroll_course
           (snd (Student_enroll_course (run [Enroll_course 1 0] (new_school 1)) 2 0)) 2 0)) 2))
     0 = 0"
  by (simp add: run_def Student_enroll_course_eq is_full_def new_school_def
      Student_init_def Course_init_def)

section \<open>Symmetry of the associations\<close>

lemma symmetric_enroll:
  assumes "symmetric h"
  shows "symmetric (snd (Student_enroll_course h s c))"
  using assms unfolding symmetric_def Student_enroll_course_eq
  by (auto simp: is_full_def)

lemma symmetric_drop:
  assumes "symmetric h"
  shows "symmetric (snd (Student_drop_course h s c))"
  using assms unfolding symmetric_def Student_drop_course_eq
  by (auto simp: distinct_remove1 set_remove1_eq)

lemma exec_symmetric:
  assumes "symmetric h" and "\<not> course_side_only op"
  shows "symmetric (exec op h)"
proof (cases op)
  case (Enroll_course s c)
  then show ?thesis using assms by (simp add: symmetric_enroll)
next
  case (Drop_course s c)
  then show ?thesis using assms by (simp add: symmetric_drop)
next
  case (Add_grade s cid g)
  then show ?thesis using assms by (simp add: symmetric_def Student_add_grade_def)
next
  case (Add_student c s)
  then show ?thesis using assms by simp
next
  case (Remove_student c s)
  then show ?thesis using assms by simp
next
  case (Set_teacher c t)
  then show ?thesis using assms by (simp add: symmetric_def Course_set_teacher_def)
next
  case (Assign_course t c)
  then show ?thesis using assms
    by (simp add: symmetric_def Teacher_assign_course_def Course_set_teacher_def)
next
  case (Remove_course t c)
  then show ?thesis using assms by (simp add: symmetric_def Teacher_remove_course_def)
next
  case (Set_student_name s v)
  then show ?thesis using assms by (simp add: symmetric_def Person_set_name_def)
next
  case (Set_student_email s v)
  then show ?thesis using assms by (simp add: symmetric_def Person_set_email_def)
next
  case (Set_student_phone s v)
  then show ?thesis using assms by (simp add: symmetric_def Person_set_phone_def)
next
  case (Set_grade_level s v)
  then show ?thesis using assms by (simp add: symmetric_def Student_set_grade_level_def)
next
  case (Set_course_name c v)
  then show ?thesis using assms by (simp add: symmetric_def Course_set_name_def)
next
  case (Dept_add_course d c)
  then show ?thesis using assms by (simp add: symmetric_def Department_add_course_def)
next
  case (Dept_remove_course d c)
  then show ?thesis using assms by (simp add: symmetric_def Department_remove_course_def)
next
  case (Dept_add_teacher d t)
  then show ?thesis using assms by (simp add: symmetric_def Department_add_teacher_def)
next
  case (Dept_remove_teacher d t)
  then show ?thesis using assms by (simp add: symmetric_def Department_remove_teacher_def)
next
  case (Dept_set_head d t)
  then show ?thesis using assms by (simp add: symmetric_def Department_set_head_def)
qed (use assms in \<open>simp_all add: symmetric_def\<close>)

lemma run_symmetric:
  "symmetric h \<Longrightarrow> \<forall>op\<in>set ops. \<not> course_side_only op \<Longrightarrow> symmetric (run ops h)"
  unfolding run_def by (induction ops arbitrary: h) (simp_all add: exec_symmetric)

lemma constructed_symmetric: "constructed h \<Longrightarrow> symmetric h"
  by (simp add: constructed_def symmetric_def)

text \<open>
  Through the student's methods the student-course association stays symmetric: after
  any sequence of calls from construction that does not call \<^verbatim>\<open>Course.add_student\<close> or
  \<^verbatim>\<open>Course.remove_student\<close> directly, a student lists a course exactly when the course
  lists the student.
\<close>

lemma student_course_symmetric:
  assumes "constructed h" and "\<forall>op\<in>set ops. \<not> course_side_only op"
  shows "c \<in> set (enrolled_courses (students (run ops h) s)) \<longleftrightarrow>
         s \<in> set (enrolled_students (courses (run ops h) c))"
proof -
  have "symmetric (run ops h)"
    using assms by (simp add: run_symmetric constructed_symmetric)
  then show ?thesis by (simp add: symmetric_def)
qed

text \<open>
  Claim C6 asks that every association is kept symmetric by every operation, with no
  reference left on one side only. Evaluated on the code: after
  \<^verbatim>\<open>t.assign_course(c)\<close> the teacher lists the course and the course names the teacher;
  after \<^verbatim>\<open>t.remove_course(c)\<close> the teacher no longer lists the course and the course
  still names the teacher. In any hospital, \<^verbatim>\<open>p.assign_doctor(d)\<close> makes the patient
  name the doctor and changes no doctor: a doctor who did not list the patient still
  does not.
\<close>

theorem one_sided_references:
  "course_teacher (courses (run [Assign_course 1 0] (new_school 30)) 0) = Some 1 \<and>
   0 \<in> set (courses_taught (teachers (run [Assign_course 1 0] (new_school 30)) 1)) \<and>
   course_teacher (courses (run [Assign_course 1 0, Remove_course 1 0] (new_school 30)) 0)
     = Some 1 \<and>
   0 \<notin> set (courses_taught
     (teachers (run [Assign_course 1 0, Remove_course 1 0] (new_school 30)) 1)) \<and>
   assigned_doctor (patients (snd (Patient_assign_doctor g p d)) p) = Some d \<and>
   doctors (snd (Patient_assign_doctor g p d)) = doctors g"
  by (simp add: run_def Teacher_assign_course_def Teacher_remove_course_def
      Course_set_teacher_def new_school_def Teacher_init_def Course_init_def
      Patient_assign_doctor_def Let_def)

section \<open>The registries of the school\<close>

text \<open>
  Claim C7. Each of \<^verbatim>\<open>School.add_student\<close>, \<^verbatim>\<open>add_teacher\<close>, \<^verbatim>\<open>add_course\<close> and
  \<^verbatim>\<open>add_department\<close> returns False and leaves the school unchanged when the identifier
  is already a key of its registry, and otherwise returns True and adds exactly the
  entry from the identifier to the object. Inserting two objects with the same
  identifier in turn, the second call is refused and the identifier still leads to the
  first object.
\<close>

theorem registry_rejects_duplicates:
  "(person_id (students h s) \<in> dom (reg_students sc) \<longrightarrow>
      School_add_student h sc s = (False, sc)) \<and>
   (person_id (students h s) \<notin> dom (reg_students sc) \<longrightarrow>
      School_add_student h sc s =
        (True, sc\<lparr>reg_students := (reg_students sc)(person_id (students h s) \<mapsto> s)\<rparr>)) \<and>
   (person_id (teachers h t) \<in> dom (reg_teachers sc) \<longrightarrow>
      School_add_teacher h sc t = (False, sc)) \<and>
   (person_id (teachers h t) \<notin> dom (reg_teachers sc) \<longrightarrow>
      School_add_teacher h sc t =
        (True, sc\<lparr>reg_teachers := (reg_teachers sc)(person_id (teachers h t) \<mapsto> t)\<rparr>)) \<and>
   (course_id (courses h c) \<in> dom (reg_courses sc) \<longrightarrow>
      School_add_course h sc c = (False, sc)) \<and>
   (course_id (courses h c) \<notin> dom (reg_courses sc) \<longrightarrow>
      School_add_course h sc c =
        (True, sc\<lparr>reg_courses := (reg_courses sc)(course_id (courses h c) \<mapsto> c)\<rparr>)) \<and>
   (dept_id (departments h d) \<in> dom (reg_departments sc) \<longrightarrow>
      School_add_department h sc d = (False, sc)) \<and>
   (dept_id (departments h d) \<notin> dom (reg_departments sc) \<longrightarrow>
      School_add_department h sc d =
        (True, sc\<lparr>reg_departments := (reg_departments sc)(dept_id (departments h d) \<mapsto> d)\<rparr>)) \<and>
   (person_id (students h s) \<notin> dom (reg_students sc) \<and>
    person_id (students h s') = person_id (students h s) \<longrightarrow>
      (let (r1, sc1) = School_add_student h sc s;
           (r2, sc2) = School_add_student h sc1 s'
       in r1 \<and> \<not> r2 \<and> sc2 = sc1 \<and> get_student sc2 (person_id (students h s)) = Some s)) \<and>
   (course_id (courses h c) \<notin> dom (reg_courses sc) \<and>
    course_id (courses h c') = course_id (courses h c) \<longrightarrow>
      (let (r1, sc1) = School_add_course h sc c;
           (r2, sc2) = School_add_course h sc1 c'
       in r1 \<and> \<not> r2 \<and> sc2 = sc1 \<and> get_course sc2 (course_id (courses h c)) = Some c))"
  by (simp add: School_add_student_def School_add_teacher_def School_add_course_def
      School_add_department_def get_student_def get_course_def Let_def)

text \<open>
  Students 1 and 2 of the concrete school share the identifier \<open>S001\<close>: the second
  insertion is refused.
\<close>

theorem registry_rejects_duplicates_witness:
  "(person_id (students (new_school 2) 1) \<notin> dom (reg_students (School_init ''Springfield'' ''Main St'')) \<and>
    person_id (students (new_school 2) 2) = person_id (students (new_school 2) 1)) \<and>
   (let (r1, sc1) = School_add_student (new_school 2) (School_init ''Springfield'' ''Main St'') 1;
        (r2, sc2) = School_add_student (new_school 2) sc1 2
    in r1 \<and> \<not> r2 \<and> sc2 = sc1 \<and>
       get_student sc2 (person_id (students (new_school 2) 1)) = Some 1)"
proof -
  have a: "person_id (students (new_school 2) 1)
             \<notin> dom (reg_students (School_init ''Springfield'' ''Main St'')) \<and>
           person_id (students (new_school 2) 2) = person_id (students (new_school 2) 1)"
    by (simp add: School_init_def new_school_def)
  with registry_rejects_duplicates
         [of "new_school 2" 1 "School_init ''Springfield'' ''Main St''" _ _ _ 2]
  show ?thesis by blast
qed

section \<open>The exclusive links of a patient\<close>

lemma Patient_is_admitted_raises: "Patient_is_admitted depth p = Inl RecursionError"
  by (induction depth) simp_all

lemma admit_to_hospital_raises:
  "Patient_admit_to_hospital depth now occupy h p r = (Inl RecursionError, h)"
  by (simp add: Patient_admit_to_hospital_def Patient_is_admitted_raises)

lemma discharge_raises: "Patient_discharge depth vacate h p = (Inl RecursionError, h)"
  by (simp add: Patient_discharge_def Patient_is_admitted_raises)

text \<open>
  Claim C8 asks that an exclusive assignment sets the link on both sides when the
  patient holds none, and is a no-op when the patient holds one. Evaluated on the code:
  the constructor call \<^verbatim>\<open>Patient(...)\<close> returns no object, whatever the clock does
  (with the clock of the file as it stands it raises AttributeError, and so does the
  constructor of Doctor); \<^verbatim>\<open>admit_to_hospital\<close>, on any patient in any state, raises
  RecursionError and leaves the store as it was, so that it never links a patient and a
  room; and \<^verbatim>\<open>assign_doctor\<close> has no guard, so that of two calls in a row the doctor of
  the second one is the patient's doctor afterwards, and it changes no doctor.
\<close>

theorem exclusive_link_never_set:
  "isl (Patient_init now pid nm em ph dob bt) \<and>
   Patient_init datetime_now pid nm em ph dob bt = Inl AttributeError \<and>
   Doctor_init datetime_now hired pid nm em ph dob sp lic = Inl AttributeError \<and>
   Patient_admit_to_hospital depth clock occupy g p r = (Inl RecursionError, g) \<and>
   assigned_doctor
     (patients (snd (Patient_assign_doctor (snd (Patient_assign_doctor g p d)) p d')) p)
     = Some d' \<and>
   doctors (snd (Patient_assign_doctor g p d)) = doctors g"
proof -
  have 1: "isl (Patient_init now pid nm em ph dob bt)"
    by (simp add: Patient_init_def HC_Person_init_def Patient_set_is_admitted_def
        split: sum.splits)
  have 2: "Patient_init datetime_now pid nm em ph dob bt = Inl AttributeError"
    by (simp add: Patient_init_def HC_Person_init_def datetime_now_def)
  have 3: "Doctor_init datetime_now hired pid nm em ph dob sp lic = Inl AttributeError"
    by (simp add: Doctor_init_def HC_Person_init_def datetime_now_def)
  have 4: "Patient_admit_to_hospital depth clock occupy g p r = (Inl RecursionError, g)"
    by (rule admit_to_hospital_raises)
  have 5: "assigned_doctor
     (patients (snd (Patient_assign_doctor (snd (Patient_assign_doctor g p d)) p d')) p)
     = Some d'"
    by (simp add: Patient_assign_doctor_def Let_def)
  have 6: "doctors (snd (Patient_assign_doctor g p d)) = doctors g"
    by (simp add: Patient_assign_doctor_def Let_def)
  from 1 2 3 4 5 6 show ?thesis by blast
qed

section \<open>Historical records\<close>

lemma exec_grades_frame:
  "grades (students (exec op h) s) k \<noteq> grades (students h s) k \<Longrightarrow>
     (\<exists>g. op = Add_grade s k g) \<or> (\<exists>c. op = Drop_course s c \<and> course_id (courses h c) = k)"
proof (cases op)
  case (Enroll_course s' c)
  assume "grades (students (exec op h) s) k \<noteq> grades (students h s) k"
  then show ?thesis using Enroll_course
    by (simp add: Student_enroll_course_eq split: if_splits)
next
  case (Drop_course s' c)
  assume "grades (students (exec op h) s) k \<noteq> grades (students h s) k"
  then show ?thesis using Drop_course
    by (simp add: Student_drop_course_eq split: if_splits)
next
  case (Add_grade s' cid g)
  assume "grades (students (exec op h) s) k \<noteq> grades (students h s) k"
  then show ?thesis using Add_grade
    by (simp add: Student_add_grade_def split: if_splits)
next
  case (Add_student c s')
  assume "grades (students (exec op h) s) k \<noteq> grades (students h s) k"
  then show ?thesis using Add_student
    by (simp add: Course_add_student_def Let_def split: if_splits)
next
  case (Remove_student c s')
  assume "grades (students (exec op h) s) k \<noteq> grades (students h s) k"
  then show ?thesis using Remove_student
    by (simp add: Course_remove_student_def Let_def split: if_splits)
next
  case (Set_teacher c t)
  assume "grades (students (exec op h) s) k \<noteq> grades (students h s) k"
  then show ?thesis using Set_teacher by (simp add: Course_set_teacher_def)
next
  case (Assign_course t c)
  assume "grades (students (exec op h) s) k \<noteq> grades (students h s) k"
  then show ?thesis using Assign_course
    by (simp add: Teacher_assign_course_def Course_set_teacher_def split: if_splits)
next
  case (Remove_course t c)
  assume "grades (students (exec op h) s) k \<noteq> grades (students h s) k"
  then show ?thesis using Remove_course
    by (simp add: Teacher_remove_course_def split: if_splits)
next
  case (Set_student_name s' v)
  assume "grades (students (exec op h) s) k \<noteq> grades (students h s) k"
  then show ?thesis using Set_student_name
    by (simp add: Person_set_name_def split: if_splits)
next
  case (Set_student_email s' v)
  assume "grades (students (exec op h) s) k \<noteq> grades (students h s) k"
  then show ?thesis using Set_student_email
    by (simp add: Person_set_email_def split: if_splits)
next
  case (Set_student_phone s' v)
  assume "grades (students (exec op h) s) k \<noteq> grades (students h s) k"
  then show ?thesis using Set_student_phone
    by (simp add: Person_set_phone_def split: if_splits)
next
  case (Set_grade_level s' v)
  assume "grades (students (exec op h) s) k \<noteq> grades (students h s) k"
  then show ?thesis using Set_grade_level
    by (simp add: Student_set_grade_level_def split: if_splits)
next
  case (Dept_add_course d c)
  assume "grades (students (exec op h) s) k \<noteq> grades (students h s) k"
  then show ?thesis using Dept_add_course
    by (simp add: Department_add_course_def split: if_splits)
next
  case (Dept_remove_course d c)
  assume "grades (students (exec op h) s) k \<noteq> grades (students h s) k"
  then show ?thesis using Dept_remove_course
    by (simp add: Department_remove_course_def split: if_splits)
next
  case (Dept_add_teacher d c)
  assume "grades (students (exec op h) s) k \<noteq> grades (students h s) k"
  then show ?thesis using Dept_add_teacher
    by (simp add: Department_add_teacher_def split: if_splits)
next
  case (Dept_remove_teacher d c)
  assume "grades (students (exec op h) s) k \<noteq> grades (students h s) k"
  then show ?thesis using Dept_remove_teacher
    by (simp add: Department_remove_teacher_def split: if_splits)
next
  case (Dept_set_head d c)
  assume "grades (students (exec op h) s) k \<noteq> grades (students h s) k"
  then show ?thesis using Dept_set_head
    by (simp add: Department_set_head_def)
qed simp_all

lemma hc_exec_history:
  "\<exists>ys. medical_history (patients (hc_exec w op g) q) = medical_history (patients g q) @ ys"
proof (cases op)
  case (Set_patient_name p v)
  then show ?thesis by (simp add: HC_Person_set_name_def)
next
  case (Set_patient_email p v)
  then show ?thesis by (simp add: HC_Person_set_email_def)
next
  case (Set_patient_phone p v)
  then show ?thesis by (simp add: HC_Person_set_phone_def)
next
  case (Add_allergy p a)
  then show ?thesis by (simp add: Patient_add_allergy_def)
next
  case (Add_medical_history p entry)
  then show ?thesis
    by (simp add: Patient_add_medical_history_def Let_def split: sum.splits)
next
  case (Assign_doctor p d)
  then show ?thesis by (simp add: Patient_assign_doctor_def Let_def)
next
  case (Schedule_appointment p a)
  then show ?thesis by (simp add: Patient_Schedule_appointment_def)
next
  case (Admit_to_hospital p r)
  then show ?thesis by (simp add: admit_to_hospital_raises)
next
  case (Discharge p)
  then show ?thesis by (simp add: discharge_raises)
next
  case (Update_vital_signs p bp t hr pl)
  then show ?thesis
    by (simp add: Patient_update_vital_signs_def Let_def split: sum.splits)
next
  case (Doctor_add d p)
  then show ?thesis by (simp add: Doctor_add_patient_def)
next
  case (Doctor_remove d p)
  then show ?thesis by (simp add: Doctor_remove_patient_def)
next
  case (Doctor_schedule d a)
  then show ?thesis by (simp add: Doctor_schedule_appointment_def)
next
  case (Prescribe_medication d p x)
  then show ?thesis by (simp add: Doctor_prescribe_medication_def)
next
  case (Write_diagnosis d p x)
  then show ?thesis
    by (simp add: Doctor_write_diagnosis_def Patient_add_medical_history_def Let_def
        split: sum.splits)
qed simp_all

lemma hc_run_history:
  "\<exists>ys. medical_history (patients (hc_run w ops g) q) = medical_history (patients g q) @ ys"
proof (induction ops arbitrary: g)
  case Nil
  then show ?case by (simp add: hc_run_def)
next
  case (Cons op ops)
  obtain ys where 1: "medical_history (patients (hc_exec w op g) q)
      = medical_history (patients g q) @ ys"
    using hc_exec_history by blast
  obtain zs where 2: "medical_history (patients (hc_run w ops (hc_exec w op g)) q)
      = medical_history (patients (hc_exec w op g) q) @ zs"
    using Cons.IH by blast
  have "hc_run w (op # ops) g = hc_run w ops (hc_exec w op g)"
    by (simp add: hc_run_def)
  with 1 2 show ?case by simp
qed

text \<open>
  Claim C9, as the code has it. A patient's medical history only grows at its end: after
  any sequence of calls of the methods and setters of Person, Patient and Doctor, under
  any clock and any Room, the history of every patient is the one before followed by
  further entries; \<^verbatim>\<open>add_medical_history\<close> appends one entry to its patient's history
  (none when the clock raises), and \<^verbatim>\<open>Doctor.write_diagnosis\<close> does the same through
  it. A student's grades hold one entry for each course identifier: \<^verbatim>\<open>add_grade\<close> with
  a grade from 0 to 100 sets the entry of its identifier, replacing an earlier one; a
  successful \<^verbatim>\<open>drop_course\<close> deletes the entry of the dropped course's identifier; and
  a call changes an entry of a student only if it is such an \<^verbatim>\<open>add_grade\<close> or
  \<^verbatim>\<open>drop_course\<close> of that student for that identifier.
\<close>

theorem history_records:
  "(\<exists>ys. medical_history (patients (hc_run w ops g) q) = medical_history (patients g q) @ ys) \<and>
   medical_history (patients (snd (Patient_add_medical_history now g p entry)) p) =
     medical_history (patients g p) @
       (case now of Inl e \<Rightarrow> [] | Inr ts \<Rightarrow> [ts @ '': '' @ entry]) \<and>
   medical_history (patients (snd (Doctor_write_diagnosis now g d p entry)) p) =
     medical_history (patients g p) @
       (case now of Inl e \<Rightarrow> [] | Inr ts \<Rightarrow> [ts @ '': '' @ ''Diagnosis: '' @ entry]) \<and>
   (py_le (Fin 0) x \<and> py_le x (Fin 100) \<longrightarrow>
      grades (students (exec (Add_grade s k x) h) s) = (grades (students h s))(k \<mapsto> x)) \<and>
   (c \<in> set (enrolled_courses (students h s)) \<longrightarrow>
      grades (students (exec (Drop_course s c) h) s) =
        (grades (students h s))(course_id (courses h c) := None)) \<and>
   (grades (students (exec op h) s) k \<noteq> grades (students h s) k \<longrightarrow>
      (\<exists>y. op = Add_grade s k y) \<or>
      (\<exists>c'. op = Drop_course s c' \<and> course_id (courses h c') = k))"
proof -
  have 1: "\<exists>ys. medical_history (patients (hc_run w ops g) q)
      = medical_history (patients g q) @ ys"
    by (rule hc_run_history)
  have 2: "medical_history (patients (snd (Patient_add_medical_history now g p entry)) p) =
     medical_history (patients g p) @
       (case now of Inl e \<Rightarrow> [] | Inr ts \<Rightarrow> [ts @ '': '' @ entry])"
    by (simp add: Patient_add_medical_history_def Let_def split: sum.splits)
  have 3: "medical_history (patients (snd (Doctor_write_diagnosis now g d p entry)) p) =
     medical_history (patients g p) @
       (case now of Inl e \<Rightarrow> [] | Inr ts \<Rightarrow> [ts @ '': '' @ ''Diagnosis: '' @ entry])"
    by (simp add: Doctor_write_diagnosis_def Patient_add_medical_history_def Let_def
        split: sum.splits)
  have 5: "py_le (Fin 0) x \<and> py_le x (Fin 100) \<longrightarrow>
      grades (students (exec (Add_grade s k x) h) s) = (grades (students h s))(k \<mapsto> x)"
    by (simp add: Student_add_grade_def)
  have 6: "c \<in> set (enrolled_courses (students h s)) \<longrightarrow>
      grades (students (exec (Drop_course s c) h) s) =
        (grades (students h s))(course_id (courses h c) := None)"
    by (simp add: Student_drop_course_eq)
  have 7: "grades (students (exec op h) s) k \<noteq> grades (students h s) k \<longrightarrow>
      (\<exists>y. op = Add_grade s k y) \<or>
      (\<exists>c'. op = Drop_course s c' \<and> course_id (courses h c') = k)"
    using exec_grades_frame [of op h s k] by blast
  from 1 2 3 5 6 7 show ?thesis by blast
qed

text \<open>
  Student 1 is given the grade 90 for \<open>C001\<close>, which changes that entry; enrolled in
  course 0, whose identifier is \<open>C001\<close>, the student drops it and the entry is gone.
\<close>

theorem history_records_witness:
  "(py_le (Fin 0) (Fin 90) \<and> py_le (Fin 90) (Fin 100)) \<and>
   grades (students (exec (Add_grade 1 ''C001'' (Fin 90)) (new_school 2)) 1) =
     (grades (students (new_school 2) 1))(''C001'' \<mapsto> Fin 90) \<and>
   0 \<in> set (enrolled_courses
     (students (run [Enroll_course 1 0, Add_grade 1 ''C001'' (Fin 90)] (new_school 2)) 1)) \<and>
   grades (students (exec (Drop_course 1 0)
       (run [Enroll_course 1 0, Add_grade 1 ''C001'' (Fin 90)] (new_school 2))) 1) =
     (grades (students
       (run [Enroll_course 1 0, Add_grade 1 ''C001'' (Fin 90)] (new_school 2)) 1))
     (course_id (courses
       (run [Enroll_course 1 0, Add_grade 1 ''C001'' (Fin 90)] (new_school 2)) 0) := None)"
proof -
  have a: "py_le (Fin 0) (Fin 90) \<and> py_le (Fin 90) (Fin 100)" by simp
  have b: "0 \<in> set (enrolled_courses
     (students (run [Enroll_course 1 0, Add_grade 1 ''C001'' (Fin 90)] (new_school 2)) 1))"
    by (simp add: run_def Student_enroll_course_eq Student_add_grade_def is_full_def
        new_school_def Student_init_def Course_init_def)
  from a history_records [where x = "Fin 90" and s = 1 and k = "''C001''"
                             and h = "new_school 2"]
  have c: "grades (students (exec (Add_grade 1 ''C001'' (Fin 90)) (new_school 2)) 1) =
     (grades (students (new_school 2) 1))(''C001'' \<mapsto> Fin 90)" by blast
  from b history_records [where s = 1 and c = 0
      and h = "run [Enroll_course 1 0, Add_grade 1 ''C001'' (Fin 90)] (new_school 2)"]
  have d: "grades (students (exec (Drop_course 1 0)
       (run [Enroll_course 1 0, Add_grade 1 ''C001'' (Fin 90)] (new_school 2))) 1) =
     (grades (students
       (run [Enroll_course 1 0, Add_grade 1 ''C001'' (Fin 90)] (new_school 2)) 1))
     (course_id (courses
       (run [Enroll_course 1 0, Add_grade 1 ''C001'' (Fin 90)] (new_school 2)) 0) := None)"
    by blast
  from a b c d show ?thesis by blast
qed

text \<open>
  Claim C9 as stated lets no record change or disappear: a second \<^verbatim>\<open>add_grade\<close> for
  \<open>C001\<close> replaces the grade 90 by 80, and dropping the course \<open>C001\<close> deletes the
  grade.
\<close>

theorem history_records_counterexample:
  "grades (students (run [Add_grade 1 ''C001'' (Fin 90)] (new_school 2)) 1) ''C001''
     = Some (Fin 90) \<and>
   grades (students (run [Add_grade 1 ''C001'' (Fin 90), Add_grade 1 ''C001'' (Fin 80)]
     (new_school 2)) 1) ''C001'' = Some (Fin 80) \<and>
   grades (students (run [Enroll_course 1 0, Add_grade 1 ''C001'' (Fin 90)]
     (new_school 2)) 1) ''C001'' = Some (Fin 90) \<and>
   grades (students (run [Enroll_course 1 0, Add_grade 1 ''C001'' (Fin 90), Drop_course 1 0]
     (new_school 2)) 1) ''C001'' = None"
  by (simp add: run_def Student_add_grade_def Student_enroll_course_eq Student_drop_course_eq
      is_full_def new_school_def Student_init_def Course_init_def)

section \<open>Malformed input\<close>

lemma strip_empty_iff: "strip v = [] \<longleftrightarrow> (\<forall>c\<in>set v. is_space c)"
proof
  assume "strip v = []"
  then have a: "\<forall>c\<in>set (dropWhile is_space v). is_space c"
    by (simp add: strip_def dropWhile_eq_Nil_conv)
  have "dropWhile is_space v = []"
  proof (rule ccontr)
    assume n: "dropWhile is_space v \<noteq> []"
    then have "\<not> is_space (hd (dropWhile is_space v))" by (rule hd_dropWhile)
    moreover have "hd (dropWhile is_space v) \<in> set (dropWhile is_space v)"
      using n by simp
    ultimately show False using a by blast
  qed
  then show "\<forall>c\<in>set v. is_space c" by (simp add: dropWhile_eq_Nil_conv)
next
  assume "\<forall>c\<in>set v. is_space c"
  then have d: "dropWhile is_space v = []" by (simp add: dropWhile_eq_Nil_conv)
  show "strip v = []" unfolding strip_def d by simp
qed

lemma whitespace_no_at: "\<forall>c\<in>set v. is_space c \<Longrightarrow> CHR ''@'' \<notin> set (strip v)"
proof -
  assume "\<forall>c\<in>set v. is_space c"
  then have "strip v = []" by (simp add: strip_empty_iff)
  then show ?thesis by simp
qed

text \<open>
  Claim C10. Assigning malformed input raises and leaves the object as it was. In
  system.py: a name (of a person or a course) that is empty or all whitespace, an email
  without \<open>@\<close>, a negative salary raise ValueError in the setter, and \<^verbatim>\<open>add_grade\<close>
  with a grade outside 0 to 100 (NaN included) raises ValueError. In HealthCare.py and
  main.py, assigning such a name raises NameError and assigning such an email raises
  AttributeError; a doctor's negative salary raises ValueError.
\<close>

theorem malformed_input_rejected:
  "((\<forall>c\<in>set v. is_space c) \<longrightarrow> Person_set_name p v = (Inl ValueError, p)) \<and>
   (CHR ''@'' \<notin> set v \<longrightarrow> Person_set_email p v = (Inl ValueError, p)) \<and>
   (\<not> (py_le (Fin 0) g \<and> py_le g (Fin 100)) \<longrightarrow>
      Student_add_grade h s cid g = (Inl ValueError, h)) \<and>
   (x < 0 \<or> 100 < x \<longrightarrow> Student_add_grade h s cid (Fin x) = (Inl ValueError, h)) \<and>
   (py_lt sal (Fin 0) \<longrightarrow> Teacher_set_salary t sal = (Inl ValueError, t)) \<and>
   (y < 0 \<longrightarrow> Teacher_set_salary t (Fin y) = (Inl ValueError, t)) \<and>
   ((\<forall>c\<in>set v. is_space c) \<longrightarrow> Course_set_name co v = (Inl ValueError, co)) \<and>
   ((\<forall>c\<in>set v. is_space c) \<longrightarrow> HC_Person_set_name q v = (Inl NameError, q)) \<and>
   (CHR ''@'' \<notin> set v \<longrightarrow> HC_Person_set_email q v = (Inl AttributeError, q)) \<and>
   (py_lt sal (Fin 0) \<longrightarrow> Doctor_set_salary d sal = (Inl ValueError, d)) \<and>
   (y < 0 \<longrightarrow> Doctor_set_salary d (Fin y) = (Inl ValueError, d)) \<and>
   ((\<forall>c\<in>set v. is_space c) \<longrightarrow> Main_Person_set_name p v = (Inl NameError, p)) \<and>
   (CHR ''@'' \<notin> set v \<longrightarrow> Main_Person_set_email p v = (Inl AttributeError, p))"
  by (auto simp: Person_set_name_def Person_set_email_def Student_add_grade_def
      Teacher_set_salary_def Course_set_name_def HC_Person_set_name_def
      HC_Person_set_email_def Doctor_set_salary_def Main_Person_set_name_def
      Main_Person_set_email_def strip_empty_iff whitespace_no_at)

text \<open>
  A blank name, an email without \<open>@\<close>, the grade 101 and the salary -5 are all
  rejected.
\<close>

theorem malformed_input_rejected_witness:
  "strip ''  '' = [] \<and> CHR ''@'' \<notin> set ''alice.school.com'' \<and>
   \<not> (py_le (Fin 0) (Fin 101) \<and> py_le (Fin 101) (Fin 100)) \<and> py_lt (Fin (- 5)) (Fin 0) \<and>
   Person_set_name (students (new_school 2) 1) ''  ''
     = (Inl ValueError, students (new_school 2) 1) \<and>
   Person_set_email (students (new_school 2) 1) ''alice.school.com''
     = (Inl ValueError, students (new_school 2) 1) \<and>
   Student_add_grade (new_school 2) 1 ''C001'' (Fin 101) = (Inl ValueError, new_school 2) \<and>
   Teacher_set_salary (teachers (new_school 2) 1) (Fin (- 5))
     = (Inl ValueError, teachers (new_school 2) 1) \<and>
   (\<forall>q :: patient. HC_Person_set_name q ''  '' = (Inl NameError, q)) \<and>
   (\<forall>q :: patient. HC_Person_set_email q ''alice.school.com'' = (Inl AttributeError, q)) \<and>
   (\<forall>d. Doctor_set_salary d (Fin (- 5)) = (Inl ValueError, d))"
proof -
  have a: "\<forall>c\<in>set ''  ''. is_space c" by (simp add: is_space_def)
  have b: "CHR ''@'' \<notin> set ''alice.school.com''" by simp
  have c: "\<not> (py_le (Fin 0) (Fin 101) \<and> py_le (Fin 101) (Fin 100))" by simp
  have d: "py_lt (Fin (- 5)) (Fin 0)" by simp
  from a malformed_input_rejected [where v = "''  ''" and p = "students (new_school 2) 1"]
  have 1: "Person_set_name (students (new_school 2) 1) ''  ''
     = (Inl ValueError, students (new_school 2) 1)" by blast
  from b malformed_input_rejected [where v = "''alice.school.com''"
                                      and p = "students (new_school 2) 1"]
  have 2: "Person_set_email (students (new_school 2) 1) ''alice.school.com''
     = (Inl ValueError, students (new_school 2) 1)" by blast
  from c malformed_input_rejected [where g = "Fin 101" and h = "new_school 2" and s = 1
                                      and cid = "''C001''"]
  have 3: "Student_add_grade (new_school 2) 1 ''C001'' (Fin 101)
     = (Inl ValueError, new_school 2)" by blast
  from d malformed_input_rejected [where sal = "Fin (- 5)" and t = "teachers (new_school 2) 1"]
  have 4: "Teacher_set_salary (teachers (new_school 2) 1) (Fin (- 5))
     = (Inl ValueError, teachers (new_school 2) 1)" by blast
  have 5: "HC_Person_set_name q ''  '' = (Inl NameError, q)" for q :: patient
    using a malformed_input_rejected [where v = "''  ''" and q = q] by blast
  have 6: "HC_Person_set_email q ''alice.school.com'' = (Inl AttributeError, q)"
    for q :: patient
    using b malformed_input_rejected [where v = "''alice.school.com''" and q = q] by blast
  have 7: "Doctor_set_salary e (Fin (- 5)) = (Inl ValueError, e)" for e
    using d malformed_input_rejected [where sal = "Fin (- 5)" and d = e] by blast
  have e: "strip ''  '' = []" by (simp add: strip_def is_space_def)
  from e b c d 1 2 3 4 5 6 7 show ?thesis by blast
qed

end
